theory Spec2Isabelle
  imports Complex_Main
begin

section \<open>JavaScript values\<close>

text \<open>
  The values that \<open>JSON.parse\<close> hands to the service, together with \<open>undefined\<close> and
  \<open>NaN\<close>, which the code itself produces.  Numbers are modelled as integers (token
  counts and lengths); fractions, infinities and the rounding of doubles are outside the
  model.  Strings are HOL strings, one \<^typ>\<open>char\<close> per UTF-16 code unit, restricted to the
  code units 0 to 255.  An object is the list of its own properties, whose keys are
  distinct in a parsed object; a key is looked up with \<^const>\<open>map_of\<close>.
\<close>

datatype jsval =
    JUndefined
  | JNull
  | JBool bool
  | JNum int
  | JNaN
  | JStr string
  | JArr "jsval list"
  | JObj "(string \<times> jsval) list"

text \<open>
  A thrown value: an \<open>Error\<close> created by the code with its message, or a \<open>TypeError\<close>
  raised by the runtime (its message text is that of V8).
\<close>

datatype js_error = Error string | TypeError string

fun message :: "js_error \<Rightarrow> string" where
  "message (Error m) = m"
| "message (TypeError m) = m"

fun truthy :: "jsval \<Rightarrow> bool" where
  "truthy JUndefined = False"
| "truthy JNull = False"
| "truthy (JBool b) = b"
| "truthy (JNum n) = (n \<noteq> 0)"
| "truthy JNaN = False"
| "truthy (JStr s) = (s \<noteq> [])"
| "truthy (JArr xs) = True"
| "truthy (JObj kvs) = True"

text \<open>The operator \<open>a || b\<close>.\<close>

definition js_or :: "jsval \<Rightarrow> jsval \<Rightarrow> jsval" where
  "js_or a b = (if truthy a then a else b)"

fun nullish :: "jsval \<Rightarrow> bool" where
  "nullish JUndefined = True"
| "nullish JNull = True"
| "nullish v = False"

text \<open>\<open>typeof v === 'object'\<close>: objects, arrays and \<open>null\<close>.\<close>

fun typeof_object :: "jsval \<Rightarrow> bool" where
  "typeof_object JNull = True"
| "typeof_object (JArr xs) = True"
| "typeof_object (JObj kvs) = True"
| "typeof_object v = False"

text \<open>
  Reading a data property \<open>v.k\<close> or \<open>v[0]\<close> of a value that is neither \<open>null\<close> nor
  \<open>undefined\<close>.  Arrays and strings answer \<open>length\<close> and the index \<open>0\<close>; the other names the
  service reads (\<open>results\<close>, \<open>text\<close>, \<open>usage\<close>, ...) are not defined on their
  prototypes.  On \<open>null\<close> and \<open>undefined\<close> the read raises, see \<open>read_prop\<close>.
\<close>

fun get_prop :: "jsval \<Rightarrow> string \<Rightarrow> jsval" where
  "get_prop (JObj kvs) k = (case map_of kvs k of Some v \<Rightarrow> v | None \<Rightarrow> JUndefined)"
| "get_prop (JArr xs) k =
     (if k = ''length'' then JNum (int (length xs))
      else if k = ''0'' then (case xs of [] \<Rightarrow> JUndefined | x # _ \<Rightarrow> x)
      else JUndefined)"
| "get_prop (JStr s) k =
     (if k = ''length'' then JNum (int (length s))
      else if k = ''0'' then (case s of [] \<Rightarrow> JUndefined | c # _ \<Rightarrow> JStr [c])
      else JUndefined)"
| "get_prop v k = JUndefined"

definition read_prop :: "jsval \<Rightarrow> string \<Rightarrow> js_error + jsval" where
  "read_prop v k =
     (if nullish v
      then Inl (TypeError (''Cannot read properties of ''
                 @ (if v = JNull then ''null'' else ''undefined'')
                 @ '' (reading '' @ [CHR 0x27] @ k @ [CHR 0x27] @ '')''))
      else Inr (get_prop v k))"

text \<open>Optional chaining \<open>v?.k\<close>.\<close>

definition opt_prop :: "jsval \<Rightarrow> string \<Rightarrow> jsval" where
  "opt_prop v k = (if nullish v then JUndefined else get_prop v k)"

subsection \<open>Conversion to string and the operator \<open>+\<close>\<close>

definition digit_char :: "nat \<Rightarrow> char" where
  "digit_char d = ''0123456789'' ! d"

function digits :: "nat \<Rightarrow> string" where
  "digits n = (if n < 10 then [digit_char n] else digits (n div 10) @ [digit_char (n mod 10)])"
  by pat_completeness auto
termination
  by (relation "measure (\<lambda>n. n)") auto

declare digits.simps [simp del]

definition show_int :: "int \<Rightarrow> string" where
  "show_int i = (if i < 0 then CHR ''-'' # digits (nat (- i)) else digits (nat i))"

fun join :: "string \<Rightarrow> string list \<Rightarrow> string" where
  "join sep [] = []"
| "join sep [x] = x"
| "join sep (x # y # ys) = x @ sep @ join sep (y # ys)"

text \<open>
  \<open>ToString\<close>.  An array is joined with commas, \<open>null\<close> and \<open>undefined\<close> elements giving
  the empty string; an object gives \<open>[object Object]\<close>.
\<close>

fun to_string :: "jsval \<Rightarrow> string" where
  "to_string JUndefined = ''undefined''"
| "to_string JNull = ''null''"
| "to_string (JBool b) = (if b then ''true'' else ''false'')"
| "to_string (JNum n) = show_int n"
| "to_string JNaN = ''NaN''"
| "to_string (JStr s) = s"
| "to_string (JArr xs) =
     join '','' (map (\<lambda>x. case x of JUndefined \<Rightarrow> [] | JNull \<Rightarrow> [] | _ \<Rightarrow> to_string x) xs)"
| "to_string (JObj kvs) = ''[object Object]''"

text \<open>\<open>ToPrimitive\<close>: arrays and objects become their strings.\<close>

fun to_primitive :: "jsval \<Rightarrow> jsval" where
  "to_primitive (JArr xs) = JStr (to_string (JArr xs))"
| "to_primitive (JObj kvs) = JStr (to_string (JObj kvs))"
| "to_primitive v = v"

fun is_string :: "jsval \<Rightarrow> bool" where
  "is_string (JStr s) = True"
| "is_string v = False"

text \<open>\<open>ToNumber\<close> of a primitive that is not a string; \<open>None\<close> stands for \<open>NaN\<close>.\<close>

fun to_number :: "jsval \<Rightarrow> int option" where
  "to_number JNull = Some 0"
| "to_number (JBool b) = Some (if b then 1 else 0)"
| "to_number (JNum n) = Some n"
| "to_number v = None"

text \<open>
  The operator \<open>a + b\<close>: string concatenation as soon as one operand is a string after
  \<open>ToPrimitive\<close>, numeric addition otherwise, with \<open>NaN\<close> as soon as one operand is not a
  number.
\<close>

definition js_add :: "jsval \<Rightarrow> jsval \<Rightarrow> jsval" where
  "js_add a b =
     (let pa = to_primitive a; pb = to_primitive b
      in if is_string pa \<or> is_string pb then JStr (to_string pa @ to_string pb)
         else (case (to_number pa, to_number pb) of
                 (Some x, Some y) \<Rightarrow> JNum (x + y)
               | _ \<Rightarrow> JNaN))"

text \<open>
  The comparison \<open>v > 0\<close>.  A string operand is converted by the runtime's
  \<open>StringToNumber\<close>, a floating-point conversion that is taken as the parameter
  \<open>positive\<close> (whether the string converts to a number above zero).
\<close>

definition js_gt_zero :: "(string \<Rightarrow> bool) \<Rightarrow> jsval \<Rightarrow> bool" where
  "js_gt_zero positive v =
     (case to_primitive v of
        JStr s \<Rightarrow> positive s
      | p \<Rightarrow> (case to_number p of Some n \<Rightarrow> n > 0 | None \<Rightarrow> False))"

section \<open>Normalised responses\<close>

text \<open>
  The object \<open>{text, metadata}\<close> returned by \<open>processResponse\<close>.  The fields hold
  JavaScript values, because the code copies them from the backend's reply;
  \<open>responseType\<close> is present for three of the five reply formats.
\<close>

record response_metadata =
  tokens :: jsval
  promptTokens :: jsval
  completionTokens :: jsval
  finishReason :: jsval
  responseType :: "string option"

record processed_response =
  resp_text :: jsval
  metadata :: response_metadata

section \<open>Variable substitution (routes/execute.js, replaceVariables)\<close>

text \<open>
  An entry of \<open>context.responses\<close>: the identifier and name of the payload that produced
  it, the trimmed response text, the normalised metadata and the model information.  The
  timing figures that the source also stores in the entry (\<open>duration_ms\<close>,
  \<open>tokens_per_second\<close>) depend on the clock and are not modelled.
\<close>

record response_entry =
  payloadId :: nat
  payloadName :: string
  content :: string
  entry_metadata :: response_metadata
  model_info :: jsval

record exec_context =
  responses :: "response_entry list"

text \<open>
  The regular expression \<open>/\{\{([^}]+)\}\}/\<close> anchored at the head of a string.  The greedy
  class \<open>[^}]+\<close> consumes the longest run of characters other than \<open>}\<close>; giving characters
  back cannot help, because the next pattern character is \<open>}\<close>.  The result is the captured
  variable and the text after the match.
\<close>

definition match_variable :: "string \<Rightarrow> (string \<times> string) option" where
  "match_variable s =
     (if take 2 s = ''{{'' then
        (let t = drop 2 s;
             variable = takeWhile (\<lambda>c. c \<noteq> CHR ''}'') t;
             r = dropWhile (\<lambda>c. c \<noteq> CHR ''}'') t
         in if variable \<noteq> [] \<and> take 2 r = ''}}'' then Some (variable, drop 2 r) else None)
      else None)"

text \<open>The callback given to \<open>prompt.replace\<close>: the first response whose name is the variable.\<close>

fun lookup_variable :: "response_entry list \<Rightarrow> string \<Rightarrow> string \<Rightarrow> string" where
  "lookup_variable [] match variable = match"
| "lookup_variable (r # rs) match variable =
     (if payloadName r = variable then content r else lookup_variable rs match variable)"

lemma match_variable_shorter:
  assumes "match_variable s = Some (v, rest)"
  shows "length rest < length s"
proof -
  let ?t = "drop 2 s"
  from assms have hd: "take 2 s = ''{{''"
    and rest: "rest = drop 2 (dropWhile (\<lambda>c. c \<noteq> CHR ''}'') ?t)"
    by (auto simp: match_variable_def Let_def split: if_splits)
  from hd have "length (take 2 s) = 2" by simp
  then have two: "2 \<le> length s" by simp
  have "length (dropWhile (\<lambda>c. c \<noteq> CHR ''}'') ?t) \<le> length ?t"
    by (rule length_dropWhile_le)
  with rest two show ?thesis by simp
qed

text \<open>
  \<open>String.prototype.replace\<close> with a global pattern: scan from the left, replace each match
  by the callback's result and resume after the match; the replacement is not rescanned.
\<close>

function replace_variables_global :: "(string \<Rightarrow> string \<Rightarrow> string) \<Rightarrow> string \<Rightarrow> string" where
  "replace_variables_global f [] = []"
| "replace_variables_global f (c # s) =
     (case match_variable (c # s) of
        Some (variable, rest) \<Rightarrow>
          f (''{{'' @ variable @ ''}}'') variable @ replace_variables_global f rest
      | None \<Rightarrow> c # replace_variables_global f s)"
  by pat_completeness auto
termination
  by (relation "measure (\<lambda>(f, s). length s)") (auto dest: match_variable_shorter)

definition previous_response_separator :: string where
  "previous_response_separator =
     [CHR 0x0A, CHR 0x0A] @ ''Previous response:'' @ [CHR 0x0A]"

text \<open>The value of \<open>processedPrompt\<close> after the call of \<open>prompt.replace\<close>.\<close>

definition substitute_variables :: "string \<Rightarrow> exec_context \<Rightarrow> string" where
  "substitute_variables prompt context =
     replace_variables_global (lookup_variable (responses context)) prompt"

definition replaceVariables :: "string \<Rightarrow> exec_context \<Rightarrow> string" where
  "replaceVariables prompt context =
     (let processedPrompt = substitute_variables prompt context
      in if processedPrompt = prompt \<and> length (responses context) > 0
         then processedPrompt @ previous_response_separator
              @ content (last (responses context))
         else processedPrompt)"

section \<open>Output sanitisation (LLMService.cleanCorruptedText)\<close>

text \<open>\<open>String.prototype.includes\<close> on strings.\<close>

fun str_includes :: "string \<Rightarrow> string \<Rightarrow> bool" where
  "str_includes [] pat = (pat = [])"
| "str_includes (c # s) pat = (take (length pat) (c # s) = pat \<or> str_includes s pat)"

text \<open>
  The class \<open>\s\<close> and the characters removed by \<open>trim\<close>, within the code units 0 to 255:
  tab, line feed, vertical tab, form feed, carriage return, space and no-break space.
\<close>

definition js_space :: "char \<Rightarrow> bool" where
  "js_space c = (of_char c \<in> {9, 10, 11, 12, 13, 32, 160 :: nat})"

definition trim :: "string \<Rightarrow> string" where
  "trim s = rev (dropWhile js_space (rev (dropWhile js_space s)))"

text \<open>\<open>c.charCodeAt(0) < 32 && c !== '\n' && c !== '\t'\<close>\<close>

definition control_char :: "char \<Rightarrow> bool" where
  "control_char c = ((of_char c :: nat) < 32 \<and> c \<noteq> CHR 0x0A \<and> c \<noteq> CHR 0x09)"

text \<open>
  The test \<open>isCorrupted\<close>.  The source compares the number of control characters with
  \<open>text.length * 0.1\<close>; for lengths below \<open>2^53\<close> that comparison of doubles agrees with
  the comparison of integers written here.
\<close>

definition isCorrupted :: "string \<Rightarrow> bool" where
  "isCorrupted s =
     (str_includes s ''[UNK_BYTE'' \<or> str_includes s ''UNK_BYTE'' \<or>
      (length s > 0 \<and> 10 * length (filter control_char s) > length s))"

text \<open>
  \<open>/\[UNK_BYTE_[^\]]*\]/\<close> anchored at the head of a string: the text after the match.
  As for the variable pattern, the greedy class stops at the first \<open>]\<close> and giving
  characters back cannot produce a match.
\<close>

definition match_bracket_marker :: "string \<Rightarrow> string option" where
  "match_bracket_marker s =
     (if take 10 s = ''[UNK_BYTE_'' then
        (case dropWhile (\<lambda>c. c \<noteq> CHR '']'') (drop 10 s) of
           [] \<Rightarrow> None
         | b # rest \<Rightarrow> Some rest)
      else None)"

text \<open>\<open>/UNK_BYTE_[^\s]*/\<close> anchored at the head of a string: the text after the match.\<close>

definition match_plain_marker :: "string \<Rightarrow> string option" where
  "match_plain_marker s =
     (if take 9 s = ''UNK_BYTE_'' then Some (dropWhile (\<lambda>c. \<not> js_space c) (drop 9 s))
      else None)"

lemma match_bracket_marker_shorter:
  assumes "match_bracket_marker s = Some rest"
  shows "length rest < length s"
proof -
  let ?d = "dropWhile (\<lambda>c. c \<noteq> CHR '']'') (drop 10 s)"
  from assms obtain b where d: "?d = b # rest"
    by (auto simp: match_bracket_marker_def split: if_splits list.splits)
  have "length ?d \<le> length (drop 10 s)" by (rule length_dropWhile_le)
  with d show ?thesis by simp
qed

lemma match_plain_marker_shorter:
  assumes "match_plain_marker s = Some rest"
  shows "length rest < length s"
proof -
  from assms have h: "take 9 s = ''UNK_BYTE_''"
    and rest: "rest = dropWhile (\<lambda>c. \<not> js_space c) (drop 9 s)"
    by (auto simp: match_plain_marker_def split: if_splits)
  from h have "length (take 9 s) = 9" by simp
  then have "9 \<le> length s" by simp
  moreover have "length rest \<le> length (drop 9 s)"
    unfolding rest by (rule length_dropWhile_le)
  ultimately show ?thesis by simp
qed

text \<open>
  \<open>text.replace(pattern, ' ')\<close> with a global pattern whose matches are never empty:
  every match, found from the left, becomes one space, and the scan resumes after it.
\<close>

function replace_bracket_markers :: "string \<Rightarrow> string" where
  "replace_bracket_markers [] = []"
| "replace_bracket_markers (c # s) =
     (case match_bracket_marker (c # s) of
        Some rest \<Rightarrow> CHR '' '' # replace_bracket_markers rest
      | None \<Rightarrow> c # replace_bracket_markers s)"
  by pat_completeness auto
termination
  by (relation "measure length") (auto dest: match_bracket_marker_shorter)

function replace_plain_markers :: "string \<Rightarrow> string" where
  "replace_plain_markers [] = []"
| "replace_plain_markers (c # s) =
     (case match_plain_marker (c # s) of
        Some rest \<Rightarrow> CHR '' '' # replace_plain_markers rest
      | None \<Rightarrow> c # replace_plain_markers s)"
  by pat_completeness auto
termination
  by (relation "measure length") (auto dest: match_plain_marker_shorter)

text \<open>\<open>/[^\x20-\x7E\n\t]/g\<close> replaced by a space.\<close>

definition printable :: "char \<Rightarrow> bool" where
  "printable c = ((32 \<le> (of_char c :: nat) \<and> (of_char c :: nat) \<le> 126)
                  \<or> c = CHR 0x0A \<or> c = CHR 0x09)"

definition replace_non_printable :: "string \<Rightarrow> string" where
  "replace_non_printable s = map (\<lambda>c. if printable c then c else CHR '' '') s"

text \<open>\<open>/\s+/g\<close> replaced by a space: every maximal run of white space becomes one space.\<close>

function collapse_spaces :: "string \<Rightarrow> string" where
  "collapse_spaces [] = []"
| "collapse_spaces (c # s) =
     (if js_space c then CHR '' '' # collapse_spaces (dropWhile js_space s)
      else c # collapse_spaces s)"
  by pat_completeness auto
termination
  by (relation "measure length") (auto intro: le_imp_less_Suc length_dropWhile_le)

definition corrupted_sentinel :: string where
  "corrupted_sentinel =
     ''[Error: The model returned corrupted or binary data. Please try different model settings or a different model format.]''"

text \<open>The body of \<open>cleanCorruptedText\<close> for a non-empty string.\<close>

definition clean_string :: "string \<Rightarrow> string" where
  "clean_string s =
     (if \<not> isCorrupted s then s
      else
        (let cleanedText = replace_bracket_markers s;
             cleanedText = replace_plain_markers cleanedText;
             cleanedText = replace_non_printable cleanedText;
             cleanedText = trim (collapse_spaces cleanedText)
         in if length cleanedText > 3 then cleanedText else corrupted_sentinel))"

text \<open>
  \<open>cleanCorruptedText\<close> on any value.  Only a string has \<open>includes\<close>, \<open>split\<close> and
  \<open>replace\<close> as the code expects them:
  \<^item> a falsy value gives the empty string;
  \<^item> an array has \<open>includes\<close> (membership) but neither \<open>split\<close> nor \<open>replace\<close>: with a
    marker among its elements the call of \<open>replace\<close> raises inside the \<open>try\<close> and the
    sentinel is returned; an empty array is returned as it is; any other array raises at
    \<open>text.split\<close>;
  \<^item> a number, \<open>true\<close> or an object has no function \<open>includes\<close>, and the call raises.
\<close>

definition cleanCorruptedText :: "jsval \<Rightarrow> js_error + jsval" where
  "cleanCorruptedText v =
     (if \<not> truthy v then Inr (JStr [])
      else (case v of
              JStr s \<Rightarrow> Inr (JStr (clean_string s))
            | JArr xs \<Rightarrow>
                if JStr ''[UNK_BYTE'' \<in> set xs \<or> JStr ''UNK_BYTE'' \<in> set xs
                then Inr (JStr corrupted_sentinel)
                else if length xs > 0 then Inl (TypeError ''text.split is not a function'')
                else Inr (JArr xs)
            | _ \<Rightarrow> Inl (TypeError ''text.includes is not a function'')))"

section \<open>Response normalisation (LLMService.processResponse)\<close>

text \<open>
  The five branches in the order of the source.  A read such as \<open>response.results[0].text\<close>
  is written with \<^const>\<open>get_prop\<close> where the enclosing test has shown its base truthy; the
  read \<open>response.generations[0].text\<close> is the one whose base may be \<open>null\<close> or
  \<open>undefined\<close> and is written with \<^const>\<open>read_prop\<close>.  The parameter \<open>positive\<close> is that
  of \<^const>\<open>js_gt_zero\<close>.
\<close>

definition processResponse :: "(string \<Rightarrow> bool) \<Rightarrow> jsval \<Rightarrow> js_error + processed_response" where
  "processResponse positive response =
     (if \<not> truthy response \<or> \<not> typeof_object response
      then Inl (Error ''Invalid LLM response format'')
      else
        let results = get_prop response ''results'';
            generations = get_prop response ''generations'';
            choices = get_prop response ''choices'';
            usage = get_prop response ''usage'';
            billed_units = opt_prop (opt_prop response ''meta'') ''billed_units''
        in
        if truthy results \<and> truthy (get_prop results ''0'') then
          (let r0 = get_prop results ''0'' in
           case cleanCorruptedText (js_or (get_prop r0 ''text'') (JStr [])) of
             Inl e \<Rightarrow> Inl e
           | Inr t \<Rightarrow>
               Inr \<lparr>resp_text = t,
                    metadata = \<lparr>
                      tokens = js_add (get_prop r0 ''prompt_tokens'')
                                 (get_prop r0 ''completion_tokens''),
                      promptTokens = js_or (get_prop r0 ''prompt_tokens'') (JNum 0),
                      completionTokens = js_or (get_prop r0 ''completion_tokens'') (JNum 0),
                      finishReason = js_or (get_prop r0 ''finish_reason'') (JStr ''unknown''),
                      responseType = None\<rparr>\<rparr>)
        else if truthy generations \<and> js_gt_zero positive (get_prop generations ''length'') then
          (let g0 = get_prop generations ''0'' in
           case read_prop g0 ''text'' of
             Inl e \<Rightarrow> Inl e
           | Inr gtext \<Rightarrow>
              (case cleanCorruptedText (js_or gtext (JStr [])) of
                 Inl e \<Rightarrow> Inl e
               | Inr t \<Rightarrow>
                   Inr \<lparr>resp_text = t,
                        metadata = \<lparr>
                          tokens = js_or (js_add (opt_prop billed_units ''input_tokens'')
                                            (opt_prop billed_units ''output_tokens'')) (JNum 0),
                          promptTokens = js_or (opt_prop billed_units ''input_tokens'') (JNum 0),
                          completionTokens =
                            js_or (opt_prop billed_units ''output_tokens'') (JNum 0),
                          finishReason =
                            js_or (get_prop g0 ''finish_reason'') (JStr ''unknown''),
                          responseType = Some ''command-r''\<rparr>\<rparr>))
        else if truthy choices \<and> truthy (get_prop choices ''0'')
                \<and> truthy (get_prop (get_prop choices ''0'') ''message'') then
          (let c0 = get_prop choices ''0'' in
           case cleanCorruptedText
                  (js_or (get_prop (get_prop c0 ''message'') ''content'') (JStr [])) of
             Inl e \<Rightarrow> Inl e
           | Inr t \<Rightarrow>
               Inr \<lparr>resp_text = t,
                    metadata = \<lparr>
                      tokens = js_or (opt_prop usage ''total_tokens'') (JNum 0),
                      promptTokens = js_or (opt_prop usage ''prompt_tokens'') (JNum 0),
                      completionTokens = js_or (opt_prop usage ''completion_tokens'') (JNum 0),
                      finishReason = js_or (get_prop c0 ''finish_reason'') (JStr ''unknown''),
                      responseType = Some ''chat''\<rparr>\<rparr>)
        else if truthy choices \<and> truthy (get_prop choices ''0'') then
          (let c0 = get_prop choices ''0'' in
           case cleanCorruptedText (js_or (get_prop c0 ''text'') (JStr [])) of
             Inl e \<Rightarrow> Inl e
           | Inr t \<Rightarrow>
               Inr \<lparr>resp_text = t,
                    metadata = \<lparr>
                      tokens = js_or (opt_prop usage ''total_tokens'') (JNum 0),
                      promptTokens = js_or (opt_prop usage ''prompt_tokens'') (JNum 0),
                      completionTokens = js_or (opt_prop usage ''completion_tokens'') (JNum 0),
                      finishReason = js_or (get_prop c0 ''finish_reason'') (JStr ''unknown''),
                      responseType = Some ''completion''\<rparr>\<rparr>)
        else if truthy (get_prop response ''result'') then
          Inr \<lparr>resp_text = get_prop response ''result'',
               metadata = \<lparr>
                 tokens = js_or (get_prop response ''tokens'') (JNum 0),
                 promptTokens = js_or (get_prop response ''prompt_tokens'') (JNum 0),
                 completionTokens = js_or (get_prop response ''completion_tokens'') (JNum 0),
                 finishReason = js_or (get_prop response ''finish_reason'') (JStr ''unknown''),
                 responseType = None\<rparr>\<rparr>
        else Inl (Error ''Unsupported LLM response format''))"

section \<open>The gateway (LLMService.sendPrompt)\<close>

text \<open>
  A registered instance and the per-call configuration.  Of the configuration only the
  fields that steer the control flow are kept: the retry count, the model format and the
  timeout.  The sampling parameters (temperature, \<open>top_p\<close>, ...) are floating-point numbers
  that are copied into the request bodies; a body is represented by its shape and the
  formatted prompt.
\<close>

record llm_instance =
  inst_name :: string
  inst_timeout :: "nat option"

record prompt_config =
  retries :: "int option"
  model_format :: "string option"
  timeout :: "nat option"

datatype body_shape =
    Chat_messages
  | Kobold_sampler
  | Cohere_generate
  | Kobold_generate
  | OpenAI_completion

record request =
  req_port :: nat
  req_path :: string
  req_body :: body_shape
  req_prompt :: string
  req_timeout :: nat

text \<open>
  What \<open>sendPrompt\<close> does to the outside, in order: a request handed to \<open>makeRequest\<close>,
  the delay before a retry, and the line \<open>Attempt k/n failed\<close> written when a whole pass
  over the endpoints has failed.
\<close>

datatype io_event =
    Sent request
  | Slept nat
  | Attempt_failed int int

text \<open>
  \<open>makeRequest\<close> talks to the network.  It is a parameter of the model: a function from
  what has happened so far and the request to the parsed reply or the error it rejects
  with.
\<close>

type_synonym transport = "io_event list \<Rightarrow> request \<Rightarrow> js_error + jsval"

definition formatPromptForModel :: "string \<Rightarrow> string \<Rightarrow> string" where
  "formatPromptForModel prompt modelFormat =
     (if modelFormat = ''llama'' then ''<s>[INST] '' @ prompt @ '' [/INST]''
      else if modelFormat = ''llama_chat'' then
        ''<s>[INST] <<SYS>>'' @ [CHR 0x0A] @ ''You are a helpful assistant.'' @ [CHR 0x0A]
          @ ''<</SYS>>'' @ [CHR 0x0A, CHR 0x0A] @ prompt @ '' [/INST]''
      else prompt)"

definition make_request ::
  "transport \<Rightarrow> io_event list \<Rightarrow> request \<Rightarrow> (js_error + jsval) \<times> io_event list" where
  "make_request net tr rq = (net tr rq, tr @ [Sent rq])"

text \<open>
  One pass over the endpoints (the body of the outer \<open>try\<close>).  The chat attempt for the
  format \<open>mistral\<close> and the three attempts for \<open>command-r\<close> swallow their errors; the pass
  ends with the Kobold endpoint and then the OpenAI-compatible endpoint, whose error is
  the error of the pass.
\<close>

definition attempt_chain ::
  "transport \<Rightarrow> nat \<Rightarrow> string \<Rightarrow> string \<Rightarrow> nat \<Rightarrow> io_event list
     \<Rightarrow> (js_error + jsval) \<times> io_event list" where
  "attempt_chain net port modelFormat formattedPrompt tmo tr0 =
     (let rq = (\<lambda>path shape. \<lparr>req_port = port, req_path = path, req_body = shape,
                                req_prompt = formattedPrompt, req_timeout = tmo\<rparr>);
          (early1, tr1) =
            (if modelFormat = ''mistral'' then
               (case make_request net tr0 (rq ''/v1/chat/completions'' Chat_messages) of
                  (Inr response, t) \<Rightarrow> (Some response, t)
                | (Inl chatError, t) \<Rightarrow> (None, t))
             else (None, tr0))
      in case early1 of
           Some response \<Rightarrow> (Inr response, tr1)
         | None \<Rightarrow>
            (let (early2, tr2) =
               (if modelFormat = ''command-r'' then
                  (case make_request net tr1 (rq ''/api/v1/generate'' Kobold_sampler) of
                     (Inr response, t) \<Rightarrow> (Some response, t)
                   | (Inl koboldError, t) \<Rightarrow>
                      (case make_request net t (rq ''/v1/generate'' Cohere_generate) of
                         (Inr response, t') \<Rightarrow> (Some response, t')
                       | (Inl endpointError, t') \<Rightarrow>
                          (case make_request net t' (rq ''/generate'' Cohere_generate) of
                             (Inr response, t'') \<Rightarrow> (Some response, t'')
                           | (Inl commandRError, t'') \<Rightarrow> (None, t''))))
                else (None, tr1))
             in case early2 of
                  Some response \<Rightarrow> (Inr response, tr2)
                | None \<Rightarrow>
                   (case make_request net tr2 (rq ''/api/v1/generate'' Kobold_generate) of
                      (Inr response, t) \<Rightarrow> (Inr response, t)
                    | (Inl koboldError, t) \<Rightarrow>
                        make_request net t (rq ''/v1/completions'' OpenAI_completion))))"

text \<open>
  The loop \<open>for (attempt = 0; attempt <= maxRetries; attempt++)\<close> and the \<open>throw\<close> after
  it.  A retry waits \<open>retryDelayMs = 2000\<close> first.
\<close>

function retry_loop ::
  "transport \<Rightarrow> nat \<Rightarrow> string \<Rightarrow> string \<Rightarrow> nat \<Rightarrow> int \<Rightarrow> int \<Rightarrow> js_error option
     \<Rightarrow> io_event list \<Rightarrow> (js_error + jsval) \<times> io_event list" where
  "retry_loop net port modelFormat formattedPrompt tmo maxRetries attempt lastError tr =
     (if attempt \<le> maxRetries then
        (let tr1 = (if attempt > 0 then tr @ [Slept 2000] else tr)
         in case attempt_chain net port modelFormat formattedPrompt tmo tr1 of
              (Inr response, tr2) \<Rightarrow> (Inr response, tr2)
            | (Inl error, tr2) \<Rightarrow>
                (let tr3 = tr2 @ [Attempt_failed (attempt + 1) (maxRetries + 1)]
                 in if attempt = maxRetries then (Inl error, tr3)
                    else retry_loop net port modelFormat formattedPrompt tmo maxRetries
                           (attempt + 1) (Some error) tr3))
      else
        (case lastError of
           Some error \<Rightarrow> (Inl error, tr)
         | None \<Rightarrow>
             (Inl (Error (''Failed to send prompt to LLM on port '' @ show_int (int port)
                          @ '' after '' @ show_int (maxRetries + 1) @ '' attempts'')), tr)))"
  by pat_completeness auto
termination
  by (relation "measure (\<lambda>(net, port, fmt, p, tmo, maxRetries, attempt, lastError, tr).
                    nat (maxRetries + 1 - attempt))") auto

declare retry_loop.simps [simp del]

text \<open>
  \<open>sendPrompt\<close>.  \<open>llmInstances\<close> is the registry, a map from ports to instances; the
  update of \<open>lastUsed\<close> (a time stamp) is not modelled.  \<open>config.retries || 2\<close> takes the
  default for a missing count and for the count 0; \<open>config.model_format || 'default'\<close>
  takes it for a missing and for an empty format; the timeout of a request is
  \<open>mergedConfig.timeout || 180000\<close>, where the call's configuration overrides the
  instance's.
\<close>

definition sendPrompt ::
  "(nat \<rightharpoonup> llm_instance) \<Rightarrow> transport \<Rightarrow> nat \<Rightarrow> string \<Rightarrow> prompt_config
     \<Rightarrow> (js_error + jsval) \<times> io_event list" where
  "sendPrompt llmInstances net port prompt config =
     (case llmInstances port of
        None \<Rightarrow>
          (Inl (Error (''No LLM instance registered on port '' @ show_int (int port))), [])
      | Some instance \<Rightarrow>
          (let mergedTimeout = (case timeout config of Some t \<Rightarrow> Some t
                                | None \<Rightarrow> inst_timeout instance);
               tmo = (case mergedTimeout of Some t \<Rightarrow> (if t = 0 then 180000 else t)
                      | None \<Rightarrow> 180000);
               maxRetries = (case retries config of Some n \<Rightarrow> (if n = 0 then 2 else n)
                             | None \<Rightarrow> 2);
               modelFormat = (case model_format config of
                                Some f \<Rightarrow> (if f = [] then ''default'' else f)
                              | None \<Rightarrow> ''default'');
               formattedPrompt = formatPromptForModel prompt modelFormat
           in retry_loop net port modelFormat formattedPrompt tmo maxRetries 0 None []))"

subsection \<open>Observations on a trace\<close>

fun sent_paths :: "io_event list \<Rightarrow> string list" where
  "sent_paths [] = []"
| "sent_paths (Sent rq # tr) = req_path rq # sent_paths tr"
| "sent_paths (ev # tr) = sent_paths tr"

fun delays :: "io_event list \<Rightarrow> nat list" where
  "delays [] = []"
| "delays (Slept ms # tr) = ms # delays tr"
| "delays (ev # tr) = delays tr"

fun failed_attempts :: "io_event list \<Rightarrow> nat" where
  "failed_attempts [] = 0"
| "failed_attempts (Attempt_failed k n # tr) = Suc (failed_attempts tr)"
| "failed_attempts (ev # tr) = failed_attempts tr"

text \<open>
  The fallback chain as the specification lists it: the chat endpoint for the chat
  dialect, the three endpoints of the structured-generation dialect, and for every dialect
  the primary generation endpoint followed by the OpenAI-compatible completion endpoint.
\<close>

definition spec_fallback_chain :: "string \<Rightarrow> string list" where
  "spec_fallback_chain modelFormat =
     (if modelFormat = ''mistral'' then [''/v1/chat/completions''] else [])
     @ (if modelFormat = ''command-r'' then [''/api/v1/generate'', ''/v1/generate'', ''/generate'']
        else [])
     @ [''/api/v1/generate'', ''/v1/completions'']"

text \<open>The model format that \<open>sendPrompt\<close> derives from the configuration.\<close>

definition effective_format :: "prompt_config \<Rightarrow> string" where
  "effective_format config =
     (case model_format config of
        Some f \<Rightarrow> (if f = [] then ''default'' else f)
      | None \<Rightarrow> ''default'')"

text \<open>
  The outline of a trace: every event in its place, a request reduced to its path.
\<close>

datatype trace_step =
    Request_to string
  | Wait nat
  | Failure_logged int int

fun outline_of :: "io_event \<Rightarrow> trace_step" where
  "outline_of (Sent rq) = Request_to (req_path rq)"
| "outline_of (Slept ms) = Wait ms"
| "outline_of (Attempt_failed k n) = Failure_logged k n"

text \<open>
  The outline that the specification prescribes for the pass number \<open>j\<close> (counted from 0)
  of a call with retry count \<open>m\<close> in which every request fails: the fixed delay unless the
  pass is the first, a request to every candidate of the chain in order, and the failure
  line of the pass.
\<close>

definition spec_failed_pass :: "string \<Rightarrow> int \<Rightarrow> nat \<Rightarrow> trace_step list" where
  "spec_failed_pass modelFormat m j =
     (if j = 0 then [] else [Wait 2000])
     @ map Request_to (spec_fallback_chain modelFormat)
     @ [Failure_logged (int j + 1) (m + 1)]"

text \<open>
  What a call looks like from outside when every request of the \<open>passes\<close> passes numbered
  from \<open>j\<close> on has failed, starting from the trace \<open>tr0\<close>: the error returned is the one
  of the last request, which goes to the completion endpoint and is followed by the last
  failure line; the trace is extended by the outlines of these passes.
\<close>

definition all_failed_result ::
  "transport \<Rightarrow> string \<Rightarrow> int \<Rightarrow> nat \<Rightarrow> nat \<Rightarrow> io_event list
     \<Rightarrow> (js_error + jsval) \<times> io_event list \<Rightarrow> bool"
  where
  "all_failed_result net fmt m j passes tr0 res =
     (\<exists>tr' rq err. res = (Inl err, tr' @ [Sent rq, Attempt_failed (m + 1) (m + 1)])
        \<and> net tr' rq = Inl err
        \<and> req_path rq = ''/v1/completions''
        \<and> sent_paths (snd res) = sent_paths tr0 @ concat (replicate passes (spec_fallback_chain fmt))
        \<and> delays (snd res) = delays tr0 @ replicate (if j = 0 then passes - 1 else passes) 2000
        \<and> failed_attempts (snd res) = failed_attempts tr0 + passes
        \<and> map outline_of (snd res) =
            map outline_of tr0 @ concat (map (spec_failed_pass fmt m) [j..<j + passes]))"

section \<open>The run coordinator (routes/execute.js)\<close>

subsection \<open>Numbers\<close>

text \<open>
  The numbers of JavaScript are IEEE 754 doubles.  A finite double is identified with the
  rational it denotes, and \<open>/\<close> and \<open>*\<close> round the exact result to the nearest double, ties
  to the even significand.  \<open>nearest_double a b\<close> is that rounding of \<open>a / b\<close> for natural
  numbers \<open>a\<close> and \<open>b > 0\<close>, given as a significand \<open>m\<close> of 53 bits and a scale \<open>k\<close>, for
  the value \<open>m / 2 ^ k\<close>: the scale is chosen so that the quotient has 53 bits before it
  is rounded.  Quotients outside the range of the normal doubles (below \<open>2 ^ - 1022\<close>, above
  \<open>2 ^ 1024\<close>) do not arise from the lengths of arrays, and are not treated.
\<close>

fun bit_length :: "nat \<Rightarrow> nat" where
  "bit_length n = (if n = 0 then 0 else Suc (bit_length (n div 2)))"

declare bit_length.simps [simp del]

definition nearest_double :: "nat \<Rightarrow> nat \<Rightarrow> nat \<times> int" where
  "nearest_double a b =
     (if a = 0 then (0, 0)
      else
        let k0 = 53 - (int (bit_length a) - int (bit_length b));
            k = (if a * 2 ^ nat k0 div (b * 2 ^ nat (- k0)) < 2 ^ 53 then k0 else k0 - 1);
            num = a * 2 ^ nat k;
            den = b * 2 ^ nat (- k);
            q = num div den;
            r = num mod den
        in (if 2 * r < den \<or> (2 * r = den \<and> even q) then q else q + 1, k))"

definition double_value :: "nat \<times> int \<Rightarrow> rat" where
  "double_value d = of_nat (fst d) * 2 ^ nat (- snd d) / 2 ^ nat (snd d)"

text \<open>\<open>i / n\<close> on two natural numbers, and \<open>x * c\<close> on a double and a natural number.\<close>

definition js_divide :: "nat \<Rightarrow> nat \<Rightarrow> nat \<times> int" where
  "js_divide i n = nearest_double i n"

definition js_times :: "nat \<times> int \<Rightarrow> nat \<Rightarrow> nat \<times> int" where
  "js_times d c = nearest_double (fst d * c * 2 ^ nat (- snd d)) (2 ^ nat (snd d))"

text \<open>\<open>(i / payloads.length) * 100\<close>\<close>

definition progress_percent :: "nat \<Rightarrow> nat \<Rightarrow> rat" where
  "progress_percent i n = double_value (js_times (js_divide i n) 100)"

text \<open>The literal \<open>0.6\<close>.\<close>

definition default_temperature :: rat where
  "default_temperature = double_value (nearest_double 6 10)"

subsection \<open>Rows, writes and events\<close>

record payload =
  payload_id :: nat
  payload_name :: string
  payload_temperature :: "rat option"
  payload_response_length :: "nat option"
  payload_llm_port :: "nat option"
  payload_model_format :: "string option"

record block =
  block_title :: string
  block_content :: "string option"
  block_tags :: "string option"

record llm_config =
  cfg_temperature :: rat
  cfg_response_length :: nat
  cfg_llm_port :: nat
  cfg_model_format :: string

record workflow =
  workflow_name :: string

text \<open>
  The statements that the coordinator sends to the store with \<open>db.run\<close>.  A run row is
  inserted with its workflow, its status and, by \<open>POST /\<close>, the name of the workflow and
  the number of payloads as metadata.  The state of the
  store is the list of the statements that succeeded, in order.  The metadata of a
  response row is the normalised metadata; its timing figures are not modelled.
\<close>

datatype db_write =
    Insert_run jsval string string nat
  | Insert_run_bare jsval string
  | Insert_response nat nat jsval response_metadata
  | Update_run_completed nat
  | Update_run_models nat "(string \<times> jsval) list"
  | Update_run_failed nat string

text \<open>
  The four messages handed to \<open>broadcast\<close>, each with the run identifier first.  The
  progress is a double, given as the rational it denotes.
\<close>

datatype event =
    Execution_progress nat nat string rat
  | Payload_completed nat nat string jsval response_metadata
  | Workflow_completed nat
  | Workflow_failed nat string

text \<open>
  What a run does to the outside, in the order in which it does it: a message handed to
  \<open>broadcast\<close>, the query for the blocks of a payload, the two calls of the LLM service
  with their arguments, and a statement sent with \<open>db.run\<close>, which the store accepts or
  rejects.  Every call other than \<open>broadcast\<close> is awaited.
\<close>

datatype effect =
    Broadcast event
  | Query_blocks nat
  | Get_model_info nat
  | Send_prompt nat string llm_config
  | Stored db_write
  | Rejected db_write js_error

text \<open>
  The collaborators of one run.  \<open>broadcast_set\<close> tells whether a broadcast function has
  been injected (\<open>server.js\<close> injects one at start-up).  \<open>db_blocks\<close> is the query for the
  blocks of a payload, \<open>getModelInfo\<close> and \<open>gateway\<close> are the two calls of the LLM service
  (\<open>gateway\<close> is \<open>llmService.sendPrompt\<close>), each given the index of the step as well.
  \<open>db_run_error k\<close> is the error with which the \<open>k\<close>-th \<open>db.run\<close> of the run is rejected,
  if it is.  \<open>string_positive\<close> is the parameter of \<^const>\<open>processResponse\<close>.
\<close>

record env =
  broadcast_set :: bool
  db_blocks :: "nat \<Rightarrow> nat \<Rightarrow> js_error + block list"
  getModelInfo :: "nat \<Rightarrow> nat \<Rightarrow> js_error + jsval"
  gateway :: "nat \<Rightarrow> nat \<Rightarrow> string \<Rightarrow> llm_config \<Rightarrow> js_error + jsval"
  db_run_error :: "nat \<Rightarrow> js_error option"
  string_positive :: "string \<Rightarrow> bool"

text \<open>
  The state of a run: the context of the responses so far, the effects so far in order,
  and the number of \<open>db.run\<close> calls made.
\<close>

record exec_state =
  run_context :: exec_context
  effects :: "effect list"
  db_calls :: nat

definition initial_state :: exec_state where
  "initial_state = \<lparr>run_context = \<lparr>responses = []\<rparr>, effects = [], db_calls = 0\<rparr>"

text \<open>The statements that the store accepted, and the messages broadcast, in order.\<close>

fun stored :: "effect list \<Rightarrow> db_write list" where
  "stored [] = []"
| "stored (Stored w # xs) = w # stored xs"
| "stored (x # xs) = stored xs"

fun broadcasts :: "effect list \<Rightarrow> event list" where
  "broadcasts [] = []"
| "broadcasts (Broadcast ev # xs) = ev # broadcasts xs"
| "broadcasts (x # xs) = broadcasts xs"

definition db_writes :: "exec_state \<Rightarrow> db_write list" where
  "db_writes st = stored (effects st)"

definition events :: "exec_state \<Rightarrow> event list" where
  "events st = broadcasts (effects st)"

definition perform :: "exec_state \<Rightarrow> effect \<Rightarrow> exec_state" where
  "perform st x = st\<lparr>effects := effects st @ [x]\<rparr>"

text \<open>\<open>await db.run(...)\<close>: the statement is stored unless the store rejects the call.\<close>

definition db_run :: "env \<Rightarrow> exec_state \<Rightarrow> db_write \<Rightarrow> exec_state \<times> js_error option" where
  "db_run e st w =
     (case db_run_error e (db_calls st) of
        Some err \<Rightarrow> (perform (st\<lparr>db_calls := db_calls st + 1\<rparr>) (Rejected w err), Some err)
      | None \<Rightarrow> (perform (st\<lparr>db_calls := db_calls st + 1\<rparr>) (Stored w), None))"

text \<open>\<open>if (broadcast) { broadcast(...) }\<close>\<close>

definition emit :: "env \<Rightarrow> exec_state \<Rightarrow> event \<Rightarrow> exec_state" where
  "emit e st ev = (if broadcast_set e then perform st (Broadcast ev) else st)"

subsection \<open>Prompt assembly\<close>

definition is_digit :: "char \<Rightarrow> bool" where
  "is_digit c = (48 \<le> (of_char c :: nat) \<and> (of_char c :: nat) \<le> 57)"

text \<open>\<open>parseInt\<close> on a non-empty run of decimal digits.\<close>

definition parse_digits :: "string \<Rightarrow> nat" where
  "parse_digits ds = foldl (\<lambda>a c. 10 * a + (of_char c - 48)) 0 ds"

text \<open>
  \<open>block.tags.match(/payload_(\d+)/)\<close> followed by \<open>parseInt\<close>: the leftmost place where
  \<open>payload_\<close> is followed by a digit, and the number made of the digits there.
\<close>

fun match_payload_tag :: "string \<Rightarrow> nat option" where
  "match_payload_tag [] = None"
| "match_payload_tag (c # s) =
     (if take 8 (c # s) = ''payload_'' \<and> takeWhile is_digit (drop 8 (c # s)) \<noteq> []
      then Some (parse_digits (takeWhile is_digit (drop 8 (c # s))))
      else match_payload_tag s)"

text \<open>
  The loop over the blocks: a block tagged \<open>response\<close> whose tag names a payload that has
  already answered in this run takes that answer as its content; every other block keeps
  its own content.
\<close>

definition process_block :: "exec_context \<Rightarrow> block \<Rightarrow> block" where
  "process_block ctx b =
     (case block_tags b of
        None \<Rightarrow> b
      | Some tags \<Rightarrow>
          if tags \<noteq> [] \<and> str_includes tags ''response'' then
            (case match_payload_tag tags of
               None \<Rightarrow> b
             | Some sourcePayloadId \<Rightarrow>
                 (case find (\<lambda>r. payloadId r = sourcePayloadId) (responses ctx) of
                    Some sourceResponse \<Rightarrow> b\<lparr>block_content := Some (content sourceResponse)\<rparr>
                  | None \<Rightarrow> b))
          else b)"

text \<open>
  \<open>processedBlocks.map(b => b.content).join('\n\n')\<close>, where a \<open>null\<close> content counts as the
  empty string, followed by \<open>replaceVariables\<close>.
\<close>

definition assemble_prompt :: "exec_context \<Rightarrow> block list \<Rightarrow> string" where
  "assemble_prompt ctx blocks =
     replaceVariables
       (join [CHR 0x0A, CHR 0x0A]
          (map (\<lambda>b. case block_content b of None \<Rightarrow> [] | Some c \<Rightarrow> c)
             (map (process_block ctx) blocks)))
       ctx"

definition llmConfig_of :: "payload \<Rightarrow> llm_config" where
  "llmConfig_of p =
     \<lparr>cfg_temperature =
        (case payload_temperature p of
           Some t \<Rightarrow> (if t = 0 then default_temperature else t)
         | None \<Rightarrow> default_temperature),
      cfg_response_length =
        (case payload_response_length p of Some n \<Rightarrow> (if n = 0 then 1000 else n) | None \<Rightarrow> 1000),
      cfg_llm_port =
        (case payload_llm_port p of Some n \<Rightarrow> (if n = 0 then 5001 else n) | None \<Rightarrow> 5001),
      cfg_model_format =
        (case payload_model_format p of Some f \<Rightarrow> (if f = [] then ''default'' else f)
         | None \<Rightarrow> ''default'')\<rparr>"

subsection \<open>One step and the loop over the steps\<close>

text \<open>
  The body of the \<open>for\<close> loop for the payload at index \<open>i\<close> of \<open>total_payloads\<close>.  The result is
  the state reached and the exception raised, if any; what was done before the exception
  stays.  \<open>processed.text.trim()\<close> raises when the normalised text is not a string.
\<close>

definition process_payload ::
  "env \<Rightarrow> nat \<Rightarrow> nat \<Rightarrow> nat \<Rightarrow> payload \<Rightarrow> exec_state \<Rightarrow> exec_state \<times> js_error option" where
  "process_payload e runId total_payloads i p st =
     (let st1 = emit e st
                  (Execution_progress runId (payload_id p) (payload_name p)
                     (progress_percent i total_payloads));
          st2 = perform st1 (Query_blocks (payload_id p))
      in case db_blocks e i (payload_id p) of
           Inl err \<Rightarrow> (st2, Some err)
         | Inr blocks \<Rightarrow>
            (let prompt = assemble_prompt (run_context st2) blocks;
                 llmConfig = llmConfig_of p;
                 st3 = perform st2 (Get_model_info (cfg_llm_port llmConfig));
                 modelInfo = (case getModelInfo e i (cfg_llm_port llmConfig) of
                                Inl modelInfoError \<Rightarrow> JNull
                              | Inr info \<Rightarrow> info);
                 st4 = perform st3 (Send_prompt (cfg_llm_port llmConfig) prompt llmConfig)
             in case gateway e i (cfg_llm_port llmConfig) prompt llmConfig of
                  Inl err \<Rightarrow> (st4, Some err)
                | Inr llmResponse \<Rightarrow>
                   (case processResponse (string_positive e) llmResponse of
                      Inl err \<Rightarrow> (st4, Some err)
                    | Inr processed \<Rightarrow>
                       (case db_run e st4
                               (Insert_response runId (payload_id p) (resp_text processed)
                                  (metadata processed)) of
                          (st5, Some err) \<Rightarrow> (st5, Some err)
                        | (st5, None) \<Rightarrow>
                           (case resp_text processed of
                              JStr s \<Rightarrow>
                                (let st6 = st5\<lparr>run_context :=
                                       \<lparr>responses = responses (run_context st5) @
                                          [\<lparr>payloadId = payload_id p,
                                            payloadName = payload_name p,
                                            content = trim s,
                                            entry_metadata = metadata processed,
                                            model_info = modelInfo\<rparr>]\<rparr>\<rparr>
                                 in (emit e st6
                                       (Payload_completed runId (payload_id p) (payload_name p)
                                          (resp_text processed) (metadata processed)),
                                     None))
                            | _ \<Rightarrow>
                                (st5, Some (TypeError
                                   ''processed.text.trim is not a function'')))))))"

fun run_payloads ::
  "env \<Rightarrow> nat \<Rightarrow> nat \<Rightarrow> nat \<Rightarrow> payload list \<Rightarrow> exec_state \<Rightarrow> exec_state \<times> js_error option" where
  "run_payloads e runId total_payloads i [] st = (st, None)"
| "run_payloads e runId total_payloads i (p # ps) st =
     (case process_payload e runId total_payloads i p st of
        (st', Some err) \<Rightarrow> (st', Some err)
      | (st', None) \<Rightarrow> run_payloads e runId total_payloads (Suc i) ps st')"

subsection \<open>executeWorkflowAsync\<close>

text \<open>
  The \<open>try\<close> block: the loop, the update to \<open>completed\<close>, the update of \<open>$.models\<close> when some
  response carries model information, and the message \<open>workflow_completed\<close>.
\<close>

definition try_block :: "env \<Rightarrow> nat \<Rightarrow> payload list \<Rightarrow> exec_state \<times> js_error option" where
  "try_block e runId payloads =
     (case run_payloads e runId (length payloads) 0 payloads initial_state of
        (st, Some err) \<Rightarrow> (st, Some err)
      | (st, None) \<Rightarrow>
         (case db_run e st (Update_run_completed runId) of
            (st1, Some err) \<Rightarrow> (st1, Some err)
          | (st1, None) \<Rightarrow>
             (let allModels = map (\<lambda>r. (payloadName r, model_info r))
                                (filter (\<lambda>r. truthy (model_info r)) (responses (run_context st1)))
              in case (if length allModels > 0
                       then db_run e st1 (Update_run_models runId allModels)
                       else (st1, None)) of
                   (st2, Some err) \<Rightarrow> (st2, Some err)
                 | (st2, None) \<Rightarrow> (emit e st2 (Workflow_completed runId), None))))"

text \<open>
  The whole function: an exception of the \<open>try\<close> block is handled by the update to
  \<open>failed\<close> with \<open>error.message\<close> and the message \<open>workflow_failed\<close>.  The second component of
  the result is the exception that escapes the function, which only the update in the
  \<open>catch\<close> block can raise.
\<close>

definition executeWorkflowAsync ::
  "env \<Rightarrow> jsval \<Rightarrow> nat \<Rightarrow> payload list \<Rightarrow> exec_state \<times> js_error option" where
  "executeWorkflowAsync e workflowId runId payloads =
     (case try_block e runId payloads of
        (st, None) \<Rightarrow> (st, None)
      | (st, Some error) \<Rightarrow>
         (case db_run e st (Update_run_failed runId (message error)) of
            (st1, Some err) \<Rightarrow> (st1, Some err)
          | (st1, None) \<Rightarrow> (emit e st1 (Workflow_failed runId (message error)), None)))"

subsection \<open>Starting a run\<close>

text \<open>
  The store as a handler sees it: the query for the workflow, the query for its
  payloads in order, and the insertion of the run row, which yields the new identifier.
\<close>

record start_env =
  db_get_workflow :: "jsval \<Rightarrow> js_error + workflow option"
  db_all_payloads :: "jsval \<Rightarrow> js_error + payload list"
  db_insert_run :: "js_error + nat"

datatype http_body =
    Error_body string
  | Started nat string string
  | Accepted string nat

text \<open>
  What a request does, in order: effects, among them those of the execution it starts,
  and the answer sent with \<open>res.json\<close>.
\<close>

datatype handler_step =
    Effect effect
  | Respond nat http_body

text \<open>
  \<open>executeWorkflowAsync\<close> is an \<open>async\<close> function that the handlers call without awaiting it:
  the call runs the body up to its first \<open>await\<close>, with the awaited call issued, and
  returns; the rest runs after the handler has returned.  Of the effects of an execution
  the messages broadcast are the only ones that are not awaited.
\<close>

fun is_broadcast :: "effect \<Rightarrow> bool" where
  "is_broadcast (Broadcast ev) = True"
| "is_broadcast x = False"

definition before_first_await :: "effect list \<Rightarrow> effect list" where
  "before_first_await xs = takeWhile is_broadcast xs @ take 1 (dropWhile is_broadcast xs)"

definition after_first_await :: "effect list \<Rightarrow> effect list" where
  "after_first_await xs = drop 1 (dropWhile is_broadcast xs)"

text \<open>
  The handler of \<open>POST /\<close>: it calls \<open>executeWorkflowAsync\<close> and then answers.
\<close>

definition post_execute :: "start_env \<Rightarrow> env \<Rightarrow> jsval \<Rightarrow> handler_step list" where
  "post_execute s e workflowId =
     (if \<not> truthy workflowId then [Respond 400 (Error_body ''Workflow ID is required'')]
      else case db_get_workflow s workflowId of
             Inl err \<Rightarrow> [Respond 500 (Error_body ''Failed to start workflow execution'')]
           | Inr None \<Rightarrow> [Respond 404 (Error_body ''Workflow not found'')]
           | Inr (Some workflow) \<Rightarrow>
              (case db_all_payloads s workflowId of
                 Inl err \<Rightarrow> [Respond 500 (Error_body ''Failed to start workflow execution'')]
               | Inr payloads \<Rightarrow>
                  if length payloads = 0
                  then [Respond 400 (Error_body ''Workflow has no payloads to execute'')]
                  else (case db_insert_run s of
                          Inl err \<Rightarrow>
                            [Respond 500 (Error_body ''Failed to start workflow execution'')]
                        | Inr runId \<Rightarrow>
                            (let execution =
                                   effects (fst (executeWorkflowAsync e workflowId runId payloads))
                             in [Effect (Stored (Insert_run workflowId ''running''
                                                   (workflow_name workflow) (length payloads)))]
                                @ map Effect (before_first_await execution)
                                @ [Respond 200
                                     (Started runId ''Workflow execution started'' ''running'')]
                                @ map Effect (after_first_await execution)))))"

text \<open>
  The handler of \<open>POST /workflow/:id\<close>, the second way to start a run.  The identifier
  comes from the path; the run row is inserted with the status \<open>IN_PROGRESS\<close> and without
  metadata; the answer has status 202 and no status field, and it is sent before
  \<open>executeWorkflowAsync\<close> is called; an exception is answered with its message appended.
\<close>

definition post_execute_workflow :: "start_env \<Rightarrow> env \<Rightarrow> string \<Rightarrow> handler_step list" where
  "post_execute_workflow s e workflowId =
     (if workflowId = [] then [Respond 400 (Error_body ''Workflow ID is required'')]
      else case db_get_workflow s (JStr workflowId) of
             Inl err \<Rightarrow>
               [Respond 500 (Error_body (''Failed to start workflow execution: '' @ message err))]
           | Inr None \<Rightarrow> [Respond 404 (Error_body ''Workflow not found'')]
           | Inr (Some workflow) \<Rightarrow>
              (case db_all_payloads s (JStr workflowId) of
                 Inl err \<Rightarrow>
                   [Respond 500
                      (Error_body (''Failed to start workflow execution: '' @ message err))]
               | Inr payloads \<Rightarrow>
                  if length payloads = 0
                  then [Respond 400 (Error_body ''Workflow has no payloads to execute'')]
                  else (case db_insert_run s of
                          Inl err \<Rightarrow>
                            [Respond 500
                               (Error_body
                                  (''Failed to start workflow execution: '' @ message err))]
                        | Inr runId \<Rightarrow>
                            [Effect (Stored (Insert_run_bare (JStr workflowId) ''IN_PROGRESS'')),
                             Respond 202 (Accepted ''Workflow execution started'' runId)]
                            @ map Effect
                                (effects (fst (executeWorkflowAsync e (JStr workflowId) runId
                                                 payloads))))))"

text \<open>The answers in a trace, and the effects in it before the first answer.\<close>

fun answers :: "handler_step list \<Rightarrow> (nat \<times> http_body) list" where
  "answers [] = []"
| "answers (Respond code body # xs) = (code, body) # answers xs"
| "answers (x # xs) = answers xs"

fun effects_before_answer :: "handler_step list \<Rightarrow> effect list" where
  "effects_before_answer [] = []"
| "effects_before_answer (Effect x # xs) = x # effects_before_answer xs"
| "effects_before_answer (Respond code body # xs) = []"

fun all_effects :: "handler_step list \<Rightarrow> effect list" where
  "all_effects [] = []"
| "all_effects (Effect x # xs) = x # all_effects xs"
| "all_effects (x # xs) = all_effects xs"

subsection \<open>Observations on the store and on the event feed\<close>

text \<open>The response rows in the order of insertion: run and payload of each.\<close>

fun response_rows :: "db_write list \<Rightarrow> (nat \<times> nat) list" where
  "response_rows [] = []"
| "response_rows (Insert_response run pid txt md # ws) = (run, pid) # response_rows ws"
| "response_rows (w # ws) = response_rows ws"

text \<open>The values given to the column \<open>status\<close> of a run by the updates, in order.\<close>

fun status_updates :: "nat \<Rightarrow> db_write list \<Rightarrow> string list" where
  "status_updates run [] = []"
| "status_updates run (Update_run_completed r # ws) =
     (if r = run then ''completed'' # status_updates run ws else status_updates run ws)"
| "status_updates run (Update_run_failed r msg # ws) =
     (if r = run then ''failed'' # status_updates run ws else status_updates run ws)"
| "status_updates run (w # ws) = status_updates run ws"

text \<open>The error text stored in the metadata of a run, if any.\<close>

fun stored_errors :: "nat \<Rightarrow> db_write list \<Rightarrow> string list" where
  "stored_errors run [] = []"
| "stored_errors run (Update_run_failed r msg # ws) =
     (if r = run then msg # stored_errors run ws else stored_errors run ws)"
| "stored_errors run (w # ws) = stored_errors run ws"

fun failure_events :: "event list \<Rightarrow> event list" where
  "failure_events [] = []"
| "failure_events (Workflow_failed r msg # evs) = Workflow_failed r msg # failure_events evs"
| "failure_events (ev # evs) = failure_events evs"

text \<open>
  What the specification prescribes for the steps from index \<open>i\<close> on of a run of \<open>n\<close> steps,
  each given with its prompt and with the text and metadata of its result.  The event
  feed: for every step the message \<open>execution_progress\<close> with the progress
  \<open>(i / n) * 100\<close> and the name of the step, then the message \<open>payload_completed\<close>.  The
  effects (\<open>b\<close> tells whether messages are broadcast): for every step the progress message
  first, then the step itself, which is the query for its blocks, the two calls of the
  LLM service and the insertion of the response row, and then the message of completion.
\<close>

type_synonym step_result = "payload \<times> string \<times> jsval \<times> response_metadata"

fun spec_step_events :: "nat \<Rightarrow> nat \<Rightarrow> nat \<Rightarrow> step_result list \<Rightarrow> event list" where
  "spec_step_events runId n i [] = []"
| "spec_step_events runId n i ((p, prompt, txt, md) # rest) =
     Execution_progress runId (payload_id p) (payload_name p) (progress_percent i n)
     # Payload_completed runId (payload_id p) (payload_name p) txt md
     # spec_step_events runId n (Suc i) rest"

definition step_calls :: "payload \<Rightarrow> string \<Rightarrow> effect list" where
  "step_calls p prompt =
     [Query_blocks (payload_id p),
      Get_model_info (cfg_llm_port (llmConfig_of p)),
      Send_prompt (cfg_llm_port (llmConfig_of p)) prompt (llmConfig_of p)]"

fun spec_step_effects :: "bool \<Rightarrow> nat \<Rightarrow> nat \<Rightarrow> nat \<Rightarrow> step_result list \<Rightarrow> effect list" where
  "spec_step_effects b runId n i [] = []"
| "spec_step_effects b runId n i ((p, prompt, txt, md) # rest) =
     (if b then [Broadcast (Execution_progress runId (payload_id p) (payload_name p)
                              (progress_percent i n))]
      else [])
     @ step_calls p prompt
     @ [Stored (Insert_response runId (payload_id p) txt md)]
     @ (if b then [Broadcast (Payload_completed runId (payload_id p) (payload_name p) txt md)]
        else [])
     @ spec_step_effects b runId n (Suc i) rest"

text \<open>
  The effects of a step that raised \<open>err\<close>, after its progress message: the query for the
  blocks alone when that query failed; the three calls when the gateway or the
  normalisation of its answer failed; the three calls and the insertion when the store
  rejected the insertion, or when it accepted it and \<open>processed.text.trim()\<close> raised.
\<close>

definition failed_step_effects :: "nat \<Rightarrow> payload \<Rightarrow> js_error \<Rightarrow> effect list \<Rightarrow> bool" where
  "failed_step_effects runId p err xs =
     (xs = [Query_blocks (payload_id p)]
      \<or> (\<exists>prompt. xs = step_calls p prompt)
      \<or> (\<exists>prompt txt md.
            xs = step_calls p prompt @ [Rejected (Insert_response runId (payload_id p) txt md) err])
      \<or> (\<exists>prompt txt md.
            xs = step_calls p prompt @ [Stored (Insert_response runId (payload_id p) txt md)]
            \<and> err = TypeError ''processed.text.trim is not a function''))"

text \<open>The response rows of the same steps.\<close>

definition step_rows :: "nat \<Rightarrow> step_result list \<Rightarrow> db_write list" where
  "step_rows runId finished =
     map (\<lambda>(p, prompt, txt, md). Insert_response runId (payload_id p) txt md) finished"

text \<open>The exception of \<open>processed.text.trim()\<close> on a text that is not a string.\<close>

definition trim_error :: js_error where
  "trim_error = TypeError ''processed.text.trim is not a function''"
section \<open>Example data\<close>

definition example_metadata :: response_metadata where
  "example_metadata =
     \<lparr>tokens = JNum 0, promptTokens = JNum 0, completionTokens = JNum 0,
      finishReason = JStr ''unknown'', responseType = None\<rparr>"

definition example_entry :: "nat \<Rightarrow> string \<Rightarrow> string \<Rightarrow> response_entry" where
  "example_entry i name txt =
     \<lparr>payloadId = i, payloadName = name, content = txt,
      entry_metadata = example_metadata, model_info = JNull\<rparr>"

definition example_instance :: llm_instance where
  "example_instance = \<lparr>inst_name = ''Simulated LLM 1 (small)'', inst_timeout = None\<rparr>"

definition refusing_net :: transport where
  "refusing_net tr rq = Inl (Error (''Connection error to '' @ req_path rq))"

definition example_payload :: "nat \<Rightarrow> string \<Rightarrow> payload" where
  "example_payload i name =
     \<lparr>payload_id = i, payload_name = name, payload_temperature = None,
      payload_response_length = None, payload_llm_port = None, payload_model_format = None\<rparr>"

definition example_payloads :: "payload list" where
  "example_payloads =
     [example_payload 11 ''s1'', example_payload 12 ''s2'', example_payload 13 ''s3'']"

text \<open>
  A run in which everything works: one literal block per payload, a backend that answers
  every prompt with the flat reply \<open>{"result": "ok"}\<close>, a store that accepts every write.
\<close>

definition example_env :: env where
  "example_env =
     \<lparr>broadcast_set = True,
      db_blocks = (\<lambda>i pid. Inr [\<lparr>block_title = ''intro'', block_content = Some ''Go'',
                                   block_tags = None\<rparr>]),
      getModelInfo = (\<lambda>i port. Inr (JObj [(''result'', JStr ''model'')])),
      gateway = (\<lambda>i port prompt cfg. Inr (JObj [(''result'', JStr ''ok'')])),
      db_run_error = (\<lambda>k. None),
      string_positive = (\<lambda>s. False)\<rparr>"


text \<open>A backend that answers with the flat reply \<open>{"result": 5}\<close>.\<close>

definition numeric_result_env :: env where
  "numeric_result_env =
     example_env\<lparr>gateway := (\<lambda>i port prompt cfg. Inr (JObj [(''result'', JNum 5)]))\<rparr>"

text \<open>A backend that answers with the completion reply \<open>{"choices": [{"text": 5}]}\<close>.\<close>

definition numeric_choice_env :: env where
  "numeric_choice_env =
     example_env\<lparr>gateway := (\<lambda>i port prompt cfg.
        Inr (JObj [(''choices'', JArr [JObj [(''text'', JNum 5)]])]))\<rparr>"




text \<open>A store that rejects the third write of the run, the update of \<open>$.models\<close>.\<close>

definition models_update_fails_env :: env where
  "models_update_fails_env =
     example_env\<lparr>db_run_error := (\<lambda>k. if k = 2 then Some (Error ''SQLITE_BUSY: database is locked'')
                                     else None)\<rparr>"

text \<open>
  A store with a workflow that has no payloads, and one with the workflow 3, which has
  the three payloads.
\<close>

definition empty_workflow_store :: start_env where
  "empty_workflow_store =
     \<lparr>db_get_workflow = (\<lambda>w. Inr (Some \<lparr>workflow_name = ''empty''\<rparr>)),
      db_all_payloads = (\<lambda>w. Inr []),
      db_insert_run = Inr 1\<rparr>"

definition example_store :: start_env where
  "example_store =
     \<lparr>db_get_workflow = (\<lambda>w. if w = JNum 3 \<or> w = JStr ''3''
                             then Inr (Some \<lparr>workflow_name = ''demo''\<rparr>)
                             else Inr None),
      db_all_payloads = (\<lambda>w. if w = JNum 3 \<or> w = JStr ''3'' then Inr example_payloads
                             else Inr []),
      db_insert_run = Inr 7\<rparr>"

section \<open>Properties of variable substitution\<close>


lemma match_variable_token:
  assumes "n \<noteq> []" and "CHR ''}'' \<notin> set n"
  shows "match_variable (''{{'' @ n @ ''}}'' @ r) = Some (n, r)"
proof -
  have tw: "takeWhile (\<lambda>c. c \<noteq> CHR ''}'') (n @ CHR ''}'' # x) = n" for x
    using assms(2) by (induction n) auto
  have dw: "dropWhile (\<lambda>c. c \<noteq> CHR ''}'') (n @ CHR ''}'' # x) = CHR ''}'' # x" for x
    using assms(2) by (induction n) auto
  show ?thesis
    using assms(1) by (simp add: match_variable_def Let_def tw dw)
qed

lemma match_variable_sound:
  assumes "match_variable s = Some (v, r)"
  shows "s = ''{{'' @ v @ ''}}'' @ r \<and> v \<noteq> [] \<and> CHR ''}'' \<notin> set v"
proof -
  let ?t = "drop 2 s"
  let ?d = "dropWhile (\<lambda>c. c \<noteq> CHR ''}'') ?t"
  from assms have h: "take 2 s = ''{{''" and v: "v = takeWhile (\<lambda>c. c \<noteq> CHR ''}'') ?t"
    and ne: "v \<noteq> []" and c: "take 2 ?d = ''}}''" and r: "r = drop 2 ?d"
    by (auto simp: match_variable_def Let_def split: if_splits)
  have "s = take 2 s @ ?t" by simp
  also have "?t = v @ ?d" by (simp add: v)
  also have "?d = take 2 ?d @ r" by (simp add: r)
  finally have "s = ''{{'' @ v @ ''}}'' @ r" by (simp only: h c)
  moreover have "CHR ''}'' \<notin> set v"
    unfolding v by (auto dest: set_takeWhileD)
  ultimately show ?thesis using ne by simp
qed

lemma lookup_variable_find:
  "lookup_variable rs m v =
     (case find (\<lambda>e. payloadName e = v) rs of Some e \<Rightarrow> content e | None \<Rightarrow> m)"
  by (induction rs) auto

lemma replace_global_token:
  assumes "n \<noteq> []" and "CHR ''}'' \<notin> set n"
  shows "replace_variables_global f (''{{'' @ n @ ''}}'' @ r) =
         f (''{{'' @ n @ ''}}'') n @ replace_variables_global f r"
proof -
  have "match_variable (CHR ''{'' # CHR ''{'' # n @ CHR ''}'' # CHR ''}'' # r) = Some (n, r)"
    using match_variable_token [OF assms, of r] by simp
  then show ?thesis by simp
qed

lemma replace_global_other:
  assumes "\<not> (\<exists>n r. n \<noteq> [] \<and> CHR ''}'' \<notin> set n \<and> c # s = ''{{'' @ n @ ''}}'' @ r)"
  shows "replace_variables_global f (c # s) = c # replace_variables_global f s"
proof (cases "match_variable (c # s)")
  case None
  then show ?thesis by simp
next
  case (Some p)
  obtain v r where "p = (v, r)" by (cases p)
  with Some match_variable_sound [of "c # s" v r] assms show ?thesis by blast
qed

lemma replace_global_unmatched:
  assumes "\<And>v. f (''{{'' @ v @ ''}}'') v = ''{{'' @ v @ ''}}''"
  shows "replace_variables_global f t = t"
  using assms
proof (induction f t rule: replace_variables_global.induct)
  case (1 f)
  show ?case by simp
next
  case (2 f c s)
  show ?case
  proof (cases "match_variable (c # s)")
    case None
    with 2(1) 2(3) show ?thesis by simp
  next
    case (Some p)
    obtain v r where p: "p = (v, r)" by (cases p)
    from Some p have m: "match_variable (c # s) = Some (v, r)" by simp
    from match_variable_sound [OF m] have "c # s = ''{{'' @ v @ ''}}'' @ r" by simp
    moreover from 2(2) [OF m refl 2(3)] have "replace_variables_global f r = r" .
    ultimately show ?thesis using m 2(3) [of v] by simp
  qed
qed

lemma replace_global_empty_context: "replace_variables_global (lookup_variable []) t = t"
  by (rule replace_global_unmatched) simp

lemma replaceVariables_unfold:
  "replaceVariables t ctx =
     (if substitute_variables t ctx = t \<and> responses ctx \<noteq> []
      then t @ previous_response_separator @ content (last (responses ctx))
      else substitute_variables t ctx)"
  by (simp add: replaceVariables_def Let_def)

lemma find_after_unmatched:
  "\<forall>e \<in> set pre. \<not> P e \<Longrightarrow> P e1 \<Longrightarrow> find P (pre @ e1 # post) = Some e1"
  by (induction pre) auto

lemma lookup_variable_absent:
  "\<forall>e \<in> set rs. payloadName e \<noteq> v \<Longrightarrow> lookup_variable rs m v = m"
  by (induction rs) auto

lemma lookup_variable_first:
  "\<forall>e \<in> set pre. payloadName e \<noteq> payloadName e1 \<Longrightarrow>
   lookup_variable (pre @ e1 # post) m (payloadName e1) = content e1"
  by (induction pre) auto


lemma substitute_token:
  assumes "n \<noteq> []" and "CHR ''}'' \<notin> set n"
  shows "substitute_variables (''{{'' @ n @ ''}}'' @ r) ctx =
           (case find (\<lambda>e. payloadName e = n) (responses ctx) of
              Some e \<Rightarrow> content e | None \<Rightarrow> ''{{'' @ n @ ''}}'')
           @ substitute_variables r ctx"
  unfolding substitute_variables_def
  by (simp only: replace_global_token [OF assms] lookup_variable_find)

lemma substitute_other:
  assumes "\<not> (\<exists>n r. n \<noteq> [] \<and> CHR ''}'' \<notin> set n \<and> c # s = ''{{'' @ n @ ''}}'' @ r)"
  shows "substitute_variables (c # s) ctx = c # substitute_variables s ctx"
  unfolding substitute_variables_def by (rule replace_global_other [OF assms])

lemma substitute_Nil: "substitute_variables [] ctx = []"
  by (simp add: substitute_variables_def)

lemma substitute_plain_prefix:
  "CHR ''{'' \<notin> set p \<Longrightarrow> substitute_variables (p @ s) ctx = p @ substitute_variables s ctx"
proof (induction p)
  case Nil
  show ?case by simp
next
  case (Cons c p)
  then have "c \<noteq> CHR ''{''" by auto
  then have "\<not> (\<exists>n r. n \<noteq> [] \<and> CHR ''}'' \<notin> set n \<and> c # (p @ s) = ''{{'' @ n @ ''}}'' @ r)"
    by auto
  from substitute_other [OF this] Cons show ?case by simp
qed

lemma substitute_plain:
  "CHR ''{'' \<notin> set t \<Longrightarrow> substitute_variables t ctx = t"
  using substitute_plain_prefix [of t "[]" ctx] by (simp add: substitute_Nil)

lemma analyze_example:
  assumes "find (\<lambda>e. payloadName e = ''s1'') (responses ctx) = Some e" and "content e = ''X''"
  shows "replaceVariables ''Analyze: {{s1}}'' ctx = ''Analyze: X''"
proof -
  have "substitute_variables (''{{'' @ ''s1'' @ ''}}'' @ []) ctx =
          (case find (\<lambda>e. payloadName e = ''s1'') (responses ctx) of
             Some e \<Rightarrow> content e | None \<Rightarrow> ''{{'' @ ''s1'' @ ''}}'')
          @ substitute_variables [] ctx"
    by (rule substitute_token) simp_all
  with assms have tok: "substitute_variables ''{{s1}}'' ctx = ''X''"
    by (simp add: substitute_Nil)
  have "substitute_variables (''Analyze: '' @ ''{{s1}}'') ctx = ''Analyze: '' @ ''X''"
    by (simp only: tok [symmetric]) (rule substitute_plain_prefix, simp)
  then show ?thesis by (simp add: replaceVariables_unfold)
qed

lemma unknown_example:
  assumes "\<forall>e \<in> set (responses ctx). payloadName e \<noteq> ''unknown''"
  shows "replaceVariables ''{{unknown}}'' ctx =
           (if responses ctx = [] then ''{{unknown}}''
            else ''{{unknown}}'' @ previous_response_separator @ content (last (responses ctx)))"
proof -
  have "find (\<lambda>e. payloadName e = ''unknown'') (responses ctx) = None"
    using assms by (simp add: find_None_iff)
  moreover have "substitute_variables (''{{'' @ ''unknown'' @ ''}}'' @ []) ctx =
          (case find (\<lambda>e. payloadName e = ''unknown'') (responses ctx) of
             Some e \<Rightarrow> content e | None \<Rightarrow> ''{{'' @ ''unknown'' @ ''}}'')
          @ substitute_variables [] ctx"
    by (rule substitute_token) simp_all
  ultimately have "substitute_variables ''{{unknown}}'' ctx = ''{{unknown}}''"
    by (simp add: substitute_Nil)
  then show ?thesis by (simp add: replaceVariables_unfold)
qed

subsection \<open>Claims about substitution\<close>

text \<open>
  C3: whenever the substitution pass returns the template unchanged and the accumulated
  response list is non-empty, \<open>replaceVariables\<close> returns the template followed by the
  separator \<open>"\n\nPrevious response:\n"\<close> and the text of the most recent entry.  In
  particular the template \<open>Hello\<close> with a single entry named \<open>s1\<close> holding \<open>World\<close> gives
  \<open>"Hello\n\nPrevious response:\nWorld"\<close>.
\<close>

theorem C3_fallback_appends_last_response:
  "(substitute_variables t ctx = t \<and> responses ctx \<noteq> [] \<longrightarrow>
      replaceVariables t ctx =
        t @ [CHR 0x0A, CHR 0x0A] @ ''Previous response:'' @ [CHR 0x0A]
          @ content (last (responses ctx)))
   \<and> (responses ctx = [e] \<and> payloadName e = ''s1'' \<and> content e = ''World'' \<longrightarrow>
        replaceVariables ''Hello'' ctx =
          ''Hello'' @ [CHR 0x0A, CHR 0x0A] @ ''Previous response:'' @ [CHR 0x0A] @ ''World'')"
proof (intro conjI impI)
  assume "substitute_variables t ctx = t \<and> responses ctx \<noteq> []"
  then show "replaceVariables t ctx =
        t @ [CHR 0x0A, CHR 0x0A] @ ''Previous response:'' @ [CHR 0x0A]
          @ content (last (responses ctx))"
    by (simp add: replaceVariables_unfold previous_response_separator_def)
next
  assume h: "responses ctx = [e] \<and> payloadName e = ''s1'' \<and> content e = ''World''"
  have "substitute_variables ''Hello'' ctx = ''Hello''"
    by (rule substitute_plain) simp
  with h show "replaceVariables ''Hello'' ctx =
       ''Hello'' @ [CHR 0x0A, CHR 0x0A] @ ''Previous response:'' @ [CHR 0x0A] @ ''World''"
    by (simp add: replaceVariables_unfold previous_response_separator_def)
qed

theorem C3_fallback_witness:
  "replaceVariables ''Summarise the findings. {{draft}''
     \<lparr>responses = [example_entry 4 ''outline'' ''A'', example_entry 7 ''draft'' ''B'']\<rparr> =
   ''Summarise the findings. {{draft}'' @ [CHR 0x0A, CHR 0x0A] @ ''Previous response:''
     @ [CHR 0x0A] @ ''B''"
proof -
  let ?ctx = "\<lparr>responses = [example_entry 4 ''outline'' ''A'', example_entry 7 ''draft'' ''B'']\<rparr>"
  let ?t = "''Summarise the findings. {{draft}''"
  have h: "substitute_variables ?t ?ctx = ?t \<and> responses ?ctx \<noteq> []"
    by (simp add: substitute_variables_def match_variable_def)
  have c: "content (last (responses ?ctx)) = ''B''"
    by (simp add: example_entry_def)
  from C3_fallback_appends_last_response [of ?t ?ctx] h
  have "replaceVariables ?t ?ctx =
        ?t @ [CHR 0x0A, CHR 0x0A] @ ''Previous response:'' @ [CHR 0x0A]
          @ content (last (responses ?ctx))"
    by (rule conjunct1 [THEN mp])
  then show ?thesis unfolding c .
qed

text \<open>
  C4 (as stated) fails: \<open>{{unknown}}\<close> with a non-empty context that has no entry named
  \<open>unknown\<close> does not come back unchanged, the fallback block is appended to it.
\<close>

theorem C4_unknown_token_counterexample:
  "replaceVariables ''{{unknown}}'' \<lparr>responses = [example_entry 1 ''s1'' ''World'']\<rparr> =
     ''{{unknown}}'' @ [CHR 0x0A, CHR 0x0A] @ ''Previous response:'' @ [CHR 0x0A] @ ''World''
   \<and> replaceVariables ''{{unknown}}'' \<lparr>responses = [example_entry 1 ''s1'' ''World'']\<rparr>
       \<noteq> ''{{unknown}}''
   \<and> payloadName (example_entry 1 ''s1'' ''World'') \<noteq> ''unknown''"
  by (simp add: replaceVariables_def substitute_variables_def match_variable_def
        previous_response_separator_def example_entry_def)

text \<open>
  C4 (amended): the substitution pass scans the template from the left.  A token
  \<open>{{name}}\<close>, where \<open>name\<close> is a non-empty run of characters other than \<open>}\<close>, is replaced by
  the text of the first accumulated entry whose name equals \<open>name\<close>, and is kept as it is
  when there is no such entry; any other character is copied; nothing raises.  The result
  of \<open>replaceVariables\<close> is that of the pass, followed by the fallback block when the pass
  returned the template unchanged and the context is non-empty.  In particular
  \<open>Analyze: {{s1}}\<close> gives exactly \<open>Analyze: X\<close> when the first entry named \<open>s1\<close> holds \<open>X\<close>,
  and \<open>{{unknown}}\<close> with no entry named \<open>unknown\<close> comes back unchanged, braces preserved,
  when the context is empty and followed by the fallback block otherwise.
\<close>

theorem C4_substitution:
  "(\<forall>n r. n \<noteq> [] \<and> CHR ''}'' \<notin> set n \<longrightarrow>
      substitute_variables (''{{'' @ n @ ''}}'' @ r) ctx =
        (case find (\<lambda>e. payloadName e = n) (responses ctx) of
           Some e \<Rightarrow> content e
         | None \<Rightarrow> ''{{'' @ n @ ''}}'')
        @ substitute_variables r ctx)
   \<and> (\<forall>c s. \<not> (\<exists>n r. n \<noteq> [] \<and> CHR ''}'' \<notin> set n \<and> c # s = ''{{'' @ n @ ''}}'' @ r) \<longrightarrow>
          substitute_variables (c # s) ctx = c # substitute_variables s ctx)
   \<and> substitute_variables [] ctx = []
   \<and> (\<forall>t. replaceVariables t ctx =
          (if substitute_variables t ctx = t \<and> responses ctx \<noteq> []
           then t @ [CHR 0x0A, CHR 0x0A] @ ''Previous response:'' @ [CHR 0x0A]
                  @ content (last (responses ctx))
           else substitute_variables t ctx))
   \<and> (\<forall>e. find (\<lambda>e. payloadName e = ''s1'') (responses ctx) = Some e \<and> content e = ''X'' \<longrightarrow>
          replaceVariables ''Analyze: {{s1}}'' ctx = ''Analyze: X'')
   \<and> ((\<forall>e \<in> set (responses ctx). payloadName e \<noteq> ''unknown'') \<longrightarrow>
          replaceVariables ''{{unknown}}'' ctx =
            (if responses ctx = [] then ''{{unknown}}''
             else ''{{unknown}}'' @ [CHR 0x0A, CHR 0x0A] @ ''Previous response:'' @ [CHR 0x0A]
                    @ content (last (responses ctx))))"
proof (intro conjI allI impI)
  fix n r
  assume "n \<noteq> [] \<and> CHR ''}'' \<notin> set n"
  then show "substitute_variables (''{{'' @ n @ ''}}'' @ r) ctx =
        (case find (\<lambda>e. payloadName e = n) (responses ctx) of
           Some e \<Rightarrow> content e
         | None \<Rightarrow> ''{{'' @ n @ ''}}'')
        @ substitute_variables r ctx"
    using substitute_token [of n r ctx] by blast
next
  fix c s
  assume "\<not> (\<exists>n r. n \<noteq> [] \<and> CHR ''}'' \<notin> set n \<and> c # s = ''{{'' @ n @ ''}}'' @ r)"
  then show "substitute_variables (c # s) ctx = c # substitute_variables s ctx"
    by (rule substitute_other)
next
  show "substitute_variables [] ctx = []" by (rule substitute_Nil)
next
  fix t
  show "replaceVariables t ctx =
          (if substitute_variables t ctx = t \<and> responses ctx \<noteq> []
           then t @ [CHR 0x0A, CHR 0x0A] @ ''Previous response:'' @ [CHR 0x0A]
                  @ content (last (responses ctx))
           else substitute_variables t ctx)"
    by (simp add: replaceVariables_unfold previous_response_separator_def)
next
  fix e
  assume "find (\<lambda>e. payloadName e = ''s1'') (responses ctx) = Some e \<and> content e = ''X''"
  then show "replaceVariables ''Analyze: {{s1}}'' ctx = ''Analyze: X''"
    using analyze_example [of ctx e] by blast
next
  assume "\<forall>e \<in> set (responses ctx). payloadName e \<noteq> ''unknown''"
  from unknown_example [OF this]
  show "replaceVariables ''{{unknown}}'' ctx =
            (if responses ctx = [] then ''{{unknown}}''
             else ''{{unknown}}'' @ [CHR 0x0A, CHR 0x0A] @ ''Previous response:'' @ [CHR 0x0A]
                    @ content (last (responses ctx)))"
    by (simp add: previous_response_separator_def)
qed

theorem C4_substitution_witness:
  "substitute_variables ''{{s1}} and {{s2}}''
       \<lparr>responses = [example_entry 1 ''s1'' ''X'', example_entry 2 ''s1'' ''Y'']\<rparr> =
     ''X'' @ substitute_variables '' and {{s2}}''
       \<lparr>responses = [example_entry 1 ''s1'' ''X'', example_entry 2 ''s1'' ''Y'']\<rparr>
   \<and> substitute_variables ''a{{s1}}''
       \<lparr>responses = [example_entry 1 ''s1'' ''X'', example_entry 2 ''s1'' ''Y'']\<rparr> =
     CHR ''a'' # substitute_variables ''{{s1}}''
       \<lparr>responses = [example_entry 1 ''s1'' ''X'', example_entry 2 ''s1'' ''Y'']\<rparr>
   \<and> replaceVariables ''Analyze: {{s1}}''
       \<lparr>responses = [example_entry 1 ''s1'' ''X'', example_entry 2 ''s1'' ''Y'']\<rparr> =
     ''Analyze: X''
   \<and> replaceVariables ''{{unknown}}''
       \<lparr>responses = [example_entry 1 ''s1'' ''X'', example_entry 2 ''s1'' ''Y'']\<rparr> =
     ''{{unknown}}'' @ [CHR 0x0A, CHR 0x0A] @ ''Previous response:'' @ [CHR 0x0A] @ ''Y''"
proof -
  let ?ctx = "\<lparr>responses = [example_entry 1 ''s1'' ''X'', example_entry 2 ''s1'' ''Y'']\<rparr>"
  note inst = C4_substitution [of ?ctx]
  have name: "''s1'' \<noteq> [] \<and> CHR ''}'' \<notin> set ''s1''" by simp
  have found: "find (\<lambda>e. payloadName e = ''s1'') (responses ?ctx) = Some (example_entry 1 ''s1'' ''X'')
               \<and> content (example_entry 1 ''s1'' ''X'') = ''X''"
    by (simp add: example_entry_def)
  have other: "\<not> (\<exists>n r. n \<noteq> [] \<and> CHR ''}'' \<notin> set n \<and> CHR ''a'' # ''{{s1}}'' = ''{{'' @ n @ ''}}'' @ r)"
    by simp
  have absent: "\<forall>e \<in> set (responses ?ctx). payloadName e \<noteq> ''unknown''"
    by (simp add: example_entry_def)
  from inst have "\<forall>n r. n \<noteq> [] \<and> CHR ''}'' \<notin> set n \<longrightarrow>
      substitute_variables (''{{'' @ n @ ''}}'' @ r) ?ctx =
        (case find (\<lambda>e. payloadName e = n) (responses ?ctx) of
           Some e \<Rightarrow> content e
         | None \<Rightarrow> ''{{'' @ n @ ''}}'')
        @ substitute_variables r ?ctx"
    by (rule conjunct1)
  from this [rule_format, OF name, of "'' and {{s2}}''"] found
  have a: "substitute_variables ''{{s1}} and {{s2}}'' ?ctx =
           ''X'' @ substitute_variables '' and {{s2}}'' ?ctx"
    by simp
  from inst other have b: "substitute_variables ''a{{s1}}'' ?ctx =
           CHR ''a'' # substitute_variables ''{{s1}}'' ?ctx"
    by blast
  from inst found have c: "replaceVariables ''Analyze: {{s1}}'' ?ctx = ''Analyze: X''"
    by blast
  from inst absent have "replaceVariables ''{{unknown}}'' ?ctx =
            (if responses ?ctx = [] then ''{{unknown}}''
             else ''{{unknown}}'' @ [CHR 0x0A, CHR 0x0A] @ ''Previous response:'' @ [CHR 0x0A]
                    @ content (last (responses ?ctx)))"
    by blast
  then have d: "replaceVariables ''{{unknown}}'' ?ctx =
     ''{{unknown}}'' @ [CHR 0x0A, CHR 0x0A] @ ''Previous response:'' @ [CHR 0x0A] @ ''Y''"
    by (simp add: example_entry_def)
  from a b c d show ?thesis by blast
qed

text \<open>
  C10: in any context, a token \<open>{{name}}\<close> is replaced by the text of the earliest entry
  that carries the name, whatever entries follow it, whereas the fallback block carries
  the text of the most recent entry of the list: when two or more entries share a name,
  the two rules resolve the duplicates in opposite directions.
\<close>

theorem C10_duplicates_first_for_token_last_for_fallback:
  assumes "responses ctx = pre @ e1 # post"
    and "payloadName e1 = n"
    and "\<forall>e \<in> set pre. payloadName e \<noteq> n"
    and "n \<noteq> []" and "CHR ''}'' \<notin> set n"
  shows "substitute_variables (''{{'' @ n @ ''}}'' @ r) ctx = content e1 @ substitute_variables r ctx
       \<and> (substitute_variables t ctx = t \<longrightarrow>
            replaceVariables t ctx =
              t @ [CHR 0x0A, CHR 0x0A] @ ''Previous response:'' @ [CHR 0x0A]
                @ content (last (responses ctx)))"
proof
  have "find (\<lambda>e. payloadName e = n) (responses ctx) = Some e1"
    using assms(1,2,3) by (simp add: find_after_unmatched)
  with substitute_token [OF assms(4,5), of r ctx]
  show "substitute_variables (''{{'' @ n @ ''}}'' @ r) ctx = content e1 @ substitute_variables r ctx"
    by simp
next
  have "responses ctx \<noteq> []"
    using assms(1) by simp
  then show "substitute_variables t ctx = t \<longrightarrow>
            replaceVariables t ctx =
              t @ [CHR 0x0A, CHR 0x0A] @ ''Previous response:'' @ [CHR 0x0A]
                @ content (last (responses ctx))"
    by (simp add: replaceVariables_unfold previous_response_separator_def)
qed

theorem C10_duplicates_witness:
  "substitute_variables ''{{step}}!''
       \<lparr>responses = [example_entry 1 ''step'' ''first'', example_entry 2 ''step'' ''second'',
                     example_entry 3 ''other'' ''last'']\<rparr> =
     ''first'' @ substitute_variables ''!''
       \<lparr>responses = [example_entry 1 ''step'' ''first'', example_entry 2 ''step'' ''second'',
                     example_entry 3 ''other'' ''last'']\<rparr>
   \<and> replaceVariables ''Continue.''
       \<lparr>responses = [example_entry 1 ''step'' ''first'', example_entry 2 ''step'' ''second'',
                     example_entry 3 ''other'' ''last'']\<rparr> =
     ''Continue.'' @ [CHR 0x0A, CHR 0x0A] @ ''Previous response:'' @ [CHR 0x0A] @ ''last''"
proof -
  let ?e1 = "example_entry 1 ''step'' ''first''"
  let ?post = "[example_entry 2 ''step'' ''second'', example_entry 3 ''other'' ''last'']"
  let ?ctx = "\<lparr>responses = ?e1 # ?post\<rparr>"
  have h1: "responses ?ctx = [] @ ?e1 # ?post" by simp
  have h2: "payloadName ?e1 = ''step''" by (simp add: example_entry_def)
  have h3: "\<forall>e \<in> set []. payloadName e \<noteq> ''step''" by simp
  have h4: "''step'' \<noteq> []" and h5: "CHR ''}'' \<notin> set ''step''" by simp_all
  have plain: "substitute_variables ''Continue.'' ?ctx = ''Continue.''"
    by (rule substitute_plain) simp
  from C10_duplicates_first_for_token_last_for_fallback
         [OF h1 h2 h3 h4 h5, of "''!''" "''Continue.''"] plain
  show ?thesis by (simp add: example_entry_def)
qed

section \<open>Properties of response normalisation and sanitisation\<close>

lemma processResponse_invalid:
  "\<not> truthy response \<or> \<not> typeof_object response \<Longrightarrow>
   processResponse positive response = Inl (Error ''Invalid LLM response format'')"
  by (auto simp: processResponse_def)

lemma processResponse_unsupported:
  assumes "truthy response" and "typeof_object response"
    and "\<not> (truthy (get_prop response ''results'')
             \<and> truthy (get_prop (get_prop response ''results'') ''0''))"
    and "\<not> (truthy (get_prop response ''generations'')
             \<and> js_gt_zero positive (get_prop (get_prop response ''generations'') ''length''))"
    and "\<not> (truthy (get_prop response ''choices'')
             \<and> truthy (get_prop (get_prop response ''choices'') ''0''))"
    and "\<not> truthy (get_prop response ''result'')"
  shows "processResponse positive response = Inl (Error ''Unsupported LLM response format'')"
  using assms by (auto simp: processResponse_def Let_def)

lemma js_or_default: "js_or v d = d \<or> truthy (js_or v d)"
  by (simp add: js_or_def)

text \<open>The shape of every metadata object that is returned.\<close>

lemma processResponse_metadata_shape:
  assumes "processResponse positive response = Inr p"
  shows "\<exists>t a b c rt. metadata p =
           \<lparr>tokens = t, promptTokens = js_or a (JNum 0), completionTokens = js_or b (JNum 0),
            finishReason = js_or c (JStr ''unknown''), responseType = rt\<rparr>
         \<and> (truthy (get_prop response ''results'')
               \<and> truthy (get_prop (get_prop response ''results'') ''0'')
             \<or> (\<exists>u. t = js_or u (JNum 0)))"
proof -
  let ?b1 = "truthy (get_prop response ''results'')
               \<and> truthy (get_prop (get_prop response ''results'') ''0'')"
  let ?b2 = "truthy (get_prop response ''generations'')
               \<and> js_gt_zero positive (get_prop (get_prop response ''generations'') ''length'')"
  let ?b3 = "truthy (get_prop response ''choices'')
               \<and> truthy (get_prop (get_prop response ''choices'') ''0'')
               \<and> truthy (get_prop (get_prop (get_prop response ''choices'') ''0'') ''message'')"
  let ?b4 = "truthy (get_prop response ''choices'')
               \<and> truthy (get_prop (get_prop response ''choices'') ''0'')"
  let ?b5 = "truthy (get_prop response ''result'')"
  from assms have ok: "truthy response" "typeof_object response"
    by (auto simp: processResponse_def split: if_splits)
  consider (b1) ?b1 | (b2) "\<not> ?b1" ?b2 | (b3) "\<not> ?b1" "\<not> ?b2" ?b3
    | (b4) "\<not> ?b1" "\<not> ?b2" "\<not> ?b3" ?b4
    | (b5) "\<not> ?b1" "\<not> ?b2" "\<not> ?b3" "\<not> ?b4" ?b5
    | (none) "\<not> ?b1" "\<not> ?b2" "\<not> ?b3" "\<not> ?b4" "\<not> ?b5"
    by blast
  then show ?thesis
  proof cases
    case b1
    with assms ok show ?thesis
      by (auto simp: processResponse_def Let_def split: sum.splits)
  next
    case b2
    with assms ok show ?thesis
      by (auto simp: processResponse_def Let_def split: sum.splits)
  next
    case b3
    with assms ok show ?thesis
      by (auto simp: processResponse_def Let_def split: sum.splits)
  next
    case b4
    with assms ok show ?thesis
      by (auto simp: processResponse_def Let_def split: sum.splits)
  next
    case b5
    with assms ok show ?thesis
      by (auto simp: processResponse_def Let_def split: sum.splits)
  next
    case none
    with assms ok show ?thesis
      by (simp add: processResponse_def Let_def)
  qed
qed


lemma processResponse_defaults:
  assumes "processResponse positive response = Inr p"
  shows "(promptTokens (metadata p) = JNum 0 \<or> truthy (promptTokens (metadata p)))
       \<and> (completionTokens (metadata p) = JNum 0 \<or> truthy (completionTokens (metadata p)))
       \<and> (finishReason (metadata p) = JStr ''unknown'' \<or> truthy (finishReason (metadata p)))
       \<and> (truthy (get_prop response ''results'')
               \<and> truthy (get_prop (get_prop response ''results'') ''0'')
            \<or> tokens (metadata p) = JNum 0 \<or> truthy (tokens (metadata p)))"
proof -
  from processResponse_metadata_shape [OF assms]
  obtain t a b c rt where m: "metadata p =
           \<lparr>tokens = t, promptTokens = js_or a (JNum 0), completionTokens = js_or b (JNum 0),
            finishReason = js_or c (JStr ''unknown''), responseType = rt\<rparr>"
    and t: "truthy (get_prop response ''results'')
               \<and> truthy (get_prop (get_prop response ''results'') ''0'')
             \<or> (\<exists>u. t = js_or u (JNum 0))"
    by blast
  from t have "truthy (get_prop response ''results'')
               \<and> truthy (get_prop (get_prop response ''results'') ''0'')
            \<or> t = JNum 0 \<or> truthy t"
    using js_or_default by blast
  with m js_or_default [of a "JNum 0"] js_or_default [of b "JNum 0"]
    js_or_default [of c "JStr ''unknown''"]
  show ?thesis by simp
qed

text \<open>
  C1: every branch defaults the prompt and completion counts to 0 and the finish reason
  to \<open>unknown\<close>, four of the five branches default the total as well, and an unrecognised
  shape raises (the lemmas above).  But the branch for an array of results adds
  \<open>prompt_tokens\<close> and \<open>completion_tokens\<close> without a default: when a count is missing,
  \<open>tokens\<close> is \<open>NaN\<close>, not 0.
\<close>

theorem C1_results_branch_tokens_is_NaN:
  "processResponse positive (JObj [(''results'', JArr [JObj [(''text'', JStr ''hi'')]])]) =
     Inr \<lparr>resp_text = JStr ''hi'',
          metadata = \<lparr>tokens = JNaN, promptTokens = JNum 0, completionTokens = JNum 0,
                      finishReason = JStr ''unknown'', responseType = None\<rparr>\<rparr>"
  by (simp add: processResponse_def cleanCorruptedText_def clean_string_def isCorrupted_def
        js_or_def js_add_def opt_prop_def control_char_def)

theorem C1_results_branch_witness:
  "processResponse (\<lambda>s. False) (JObj [(''results'', JArr [JObj [(''text'', JStr ''hi'')]])]) =
     Inr \<lparr>resp_text = JStr ''hi'',
          metadata = \<lparr>tokens = JNaN, promptTokens = JNum 0, completionTokens = JNum 0,
                      finishReason = JStr ''unknown'', responseType = None\<rparr>\<rparr>"
  by (rule C1_results_branch_tokens_is_NaN)

text \<open>
  C2: the marker survives in two ways.  \<open>cleanCorruptedText\<close> detects the bare token
  \<open>UNK_BYTE\<close> but its patterns only remove \<open>UNK_BYTE_\<close> followed by more characters, so a
  text with the bare token is returned as it is; and the branch for a flat \<open>result\<close> field
  never calls \<open>cleanCorruptedText\<close>.
\<close>

theorem C2_marker_survives:
  "cleanCorruptedText (JStr ''abc UNK_BYTE def'') = Inr (JStr ''abc UNK_BYTE def'')
   \<and> str_includes ''abc UNK_BYTE def'' ''UNK_BYTE''
   \<and> processResponse positive
         (JObj [(''results'', JArr [JObj [(''text'', JStr ''abc UNK_BYTE def''),
                                          (''prompt_tokens'', JNum 3),
                                          (''completion_tokens'', JNum 4)]])]) =
       Inr \<lparr>resp_text = JStr ''abc UNK_BYTE def'',
            metadata = \<lparr>tokens = JNum 7, promptTokens = JNum 3, completionTokens = JNum 4,
                        finishReason = JStr ''unknown'', responseType = None\<rparr>\<rparr>
   \<and> processResponse positive (JObj [(''result'', JStr ''[UNK_BYTE_0x0e]'')]) =
       Inr \<lparr>resp_text = JStr ''[UNK_BYTE_0x0e]'',
            metadata = \<lparr>tokens = JNum 0, promptTokens = JNum 0, completionTokens = JNum 0,
                        finishReason = JStr ''unknown'', responseType = None\<rparr>\<rparr>"
proof -
  have a: "cleanCorruptedText (JStr ''abc UNK_BYTE def'') = Inr (JStr ''abc UNK_BYTE def'')"
    by (simp add: cleanCorruptedText_def clean_string_def isCorrupted_def
          match_bracket_marker_def match_plain_marker_def replace_non_printable_def
          printable_def trim_def js_space_def)
  have b: "str_includes ''abc UNK_BYTE def'' ''UNK_BYTE''" by simp
  have c: "processResponse positive
         (JObj [(''results'', JArr [JObj [(''text'', JStr ''abc UNK_BYTE def''),
                                          (''prompt_tokens'', JNum 3),
                                          (''completion_tokens'', JNum 4)]])]) =
       Inr \<lparr>resp_text = JStr ''abc UNK_BYTE def'',
            metadata = \<lparr>tokens = JNum 7, promptTokens = JNum 3, completionTokens = JNum 4,
                        finishReason = JStr ''unknown'', responseType = None\<rparr>\<rparr>"
    by (simp add: processResponse_def a js_or_def js_add_def opt_prop_def)
  have d: "processResponse positive (JObj [(''result'', JStr ''[UNK_BYTE_0x0e]'')]) =
       Inr \<lparr>resp_text = JStr ''[UNK_BYTE_0x0e]'',
            metadata = \<lparr>tokens = JNum 0, promptTokens = JNum 0, completionTokens = JNum 0,
                        finishReason = JStr ''unknown'', responseType = None\<rparr>\<rparr>"
    by (simp add: processResponse_def js_or_def js_gt_zero_def opt_prop_def)
  from a b c d show ?thesis by blast
qed

theorem C2_marker_survives_witness:
  "str_includes
     (case processResponse (\<lambda>s. False)
             (JObj [(''results'', JArr [JObj [(''text'', JStr ''abc UNK_BYTE def''),
                                          (''prompt_tokens'', JNum 3),
                                          (''completion_tokens'', JNum 4)]])]) of
        Inr p \<Rightarrow> (case resp_text p of JStr s \<Rightarrow> s | _ \<Rightarrow> [])
      | Inl e \<Rightarrow> [])
     ''UNK_BYTE''
   \<and> str_includes
     (case processResponse (\<lambda>s. False) (JObj [(''result'', JStr ''[UNK_BYTE_0x0e]'')]) of
        Inr p \<Rightarrow> (case resp_text p of JStr s \<Rightarrow> s | _ \<Rightarrow> [])
      | Inl e \<Rightarrow> [])
     ''UNK_BYTE''"
  using C2_marker_survives [of "\<lambda>s. False"] by simp

section \<open>Properties of the gateway\<close>


lemma sent_paths_append [simp]: "sent_paths (a @ b) = sent_paths a @ sent_paths b"
  by (induction a rule: sent_paths.induct) auto

lemma delays_append [simp]: "delays (a @ b) = delays a @ delays b"
  by (induction a rule: delays.induct) auto

lemma failed_attempts_append [simp]: "failed_attempts (a @ b) = failed_attempts a + failed_attempts b"
  by (induction a rule: failed_attempts.induct) auto

lemma attempt_chain_all_fail:
  assumes fail: "\<forall>tr rq. isl (net tr rq)"
  shows "\<exists>tr' rq. attempt_chain net port fmt fp tmo tr0 = (net tr' rq, tr' @ [Sent rq])
           \<and> req_path rq = ''/v1/completions''
           \<and> sent_paths (tr' @ [Sent rq]) = sent_paths tr0 @ spec_fallback_chain fmt
           \<and> delays tr' = delays tr0
           \<and> failed_attempts tr' = failed_attempts tr0
           \<and> map outline_of (tr' @ [Sent rq]) =
               map outline_of tr0 @ map Request_to (spec_fallback_chain fmt)"
  using fail
  by (simp add: attempt_chain_def make_request_def Let_def sum.case_eq_if
        spec_fallback_chain_def)

lemma retry_loop_all_fail:
  assumes fail: "\<forall>tr rq. isl (net tr rq)"
  shows "int j \<le> m \<Longrightarrow> n = nat (m - int j) \<Longrightarrow>
         all_failed_result net fmt m j (Suc n) tr
           (retry_loop net port fmt fp tmo m (int j) le tr)"
proof (induction n arbitrary: j le tr)
  case 0
  then have km: "int j = m" by simp
  let ?tr1 = "if int j > 0 then tr @ [Slept 2000] else tr"
  from attempt_chain_all_fail [OF fail, of port fmt fp tmo ?tr1]
  obtain tr' rq where ac: "attempt_chain net port fmt fp tmo ?tr1 = (net tr' rq, tr' @ [Sent rq])"
    and p: "req_path rq = ''/v1/completions''"
    and sp: "sent_paths (tr' @ [Sent rq]) = sent_paths ?tr1 @ spec_fallback_chain fmt"
    and d: "delays tr' = delays ?tr1"
    and f: "failed_attempts tr' = failed_attempts ?tr1"
    and ol: "map outline_of (tr' @ [Sent rq]) =
               map outline_of ?tr1 @ map Request_to (spec_fallback_chain fmt)"
    by blast
  from fail obtain err where err: "net tr' rq = Inl err"
    by (metis sum.collapse(1))
  have res: "retry_loop net port fmt fp tmo m (int j) le tr
          = (Inl err, tr' @ [Sent rq, Attempt_failed (m + 1) (m + 1)])"
    using km ac err by (subst retry_loop.simps) (simp add: Let_def)
  have ol1: "map outline_of (tr' @ [Sent rq, Attempt_failed (m + 1) (m + 1)]) =
          map outline_of tr @ spec_failed_pass fmt m j"
    using ol km by (auto simp: spec_failed_pass_def)
  show ?case
    unfolding all_failed_result_def res using err p sp d f ol1 by auto
next
  case (Suc n)
  then have lt: "int j < m" and n: "n = nat (m - int (Suc j))" and le': "int (Suc j) \<le> m"
    by simp_all
  let ?tr1 = "if int j > 0 then tr @ [Slept 2000] else tr"
  from attempt_chain_all_fail [OF fail, of port fmt fp tmo ?tr1]
  obtain tr' rq where ac: "attempt_chain net port fmt fp tmo ?tr1 = (net tr' rq, tr' @ [Sent rq])"
    and sp: "sent_paths (tr' @ [Sent rq]) = sent_paths ?tr1 @ spec_fallback_chain fmt"
    and d: "delays tr' = delays ?tr1"
    and f: "failed_attempts tr' = failed_attempts ?tr1"
    and ol: "map outline_of (tr' @ [Sent rq]) =
               map outline_of ?tr1 @ map Request_to (spec_fallback_chain fmt)"
    by blast
  from fail obtain err where err: "net tr' rq = Inl err"
    by (metis sum.collapse(1))
  let ?tr3 = "tr' @ [Sent rq] @ [Attempt_failed (int j + 1) (m + 1)]"
  have step: "retry_loop net port fmt fp tmo m (int j) le tr
          = retry_loop net port fmt fp tmo m (int (Suc j)) (Some err) ?tr3"
    using lt ac err by (subst retry_loop.simps) (simp add: Let_def add.commute)
  from Suc.IH [of "Suc j" ?tr3 "Some err", OF le' n]
  obtain tr'' rq'' err''
    where r: "retry_loop net port fmt fp tmo m (int (Suc j)) (Some err) ?tr3
                = (Inl err'', tr'' @ [Sent rq'', Attempt_failed (m + 1) (m + 1)])"
      and e: "net tr'' rq'' = Inl err''" and p: "req_path rq'' = ''/v1/completions''"
      and sp': "sent_paths (tr'' @ [Sent rq'', Attempt_failed (m + 1) (m + 1)]) =
                  sent_paths ?tr3 @ concat (replicate (Suc n) (spec_fallback_chain fmt))"
      and d': "delays (tr'' @ [Sent rq'', Attempt_failed (m + 1) (m + 1)]) =
                  delays ?tr3 @ replicate (Suc n) 2000"
      and f': "failed_attempts (tr'' @ [Sent rq'', Attempt_failed (m + 1) (m + 1)]) =
                  failed_attempts ?tr3 + Suc n"
      and ol': "map outline_of (tr'' @ [Sent rq'', Attempt_failed (m + 1) (m + 1)]) =
                  map outline_of ?tr3
                  @ concat (map (spec_failed_pass fmt m) [Suc j..<Suc j + Suc n])"
    unfolding all_failed_result_def by auto
  have sp2: "sent_paths ?tr3 = sent_paths tr @ spec_fallback_chain fmt"
    using sp by simp
  have d2: "delays ?tr3 @ replicate (Suc n) 2000 =
              delays tr @ replicate (if j = 0 then Suc (Suc n) - 1 else Suc (Suc n)) 2000"
    using d by (auto simp: replicate_append_same)
  have f2: "failed_attempts ?tr3 + Suc n = failed_attempts tr + Suc (Suc n)"
    using f by simp
  have ol3: "map outline_of ?tr3 = map outline_of tr @ spec_failed_pass fmt m j"
    using ol by (auto simp: spec_failed_pass_def)
  have up: "[j..<j + Suc (Suc n)] = j # [Suc j..<Suc j + Suc n]"
    by (simp add: upt_rec)
  show ?case
    unfolding all_failed_result_def step r
    apply (rule exI [of _ tr''], rule exI [of _ rq''], rule exI [of _ err''])
    apply (simp only: e p snd_conv sp' d' f' sp2 d2 f2 ol' ol3 up)
    apply simp
    done
qed


lemma sendPrompt_unregistered:
  "llmInstances port = None \<Longrightarrow>
   sendPrompt llmInstances net port prompt config =
     (Inl (Error (''No LLM instance registered on port '' @ show_int (int port))), [])"
  by (simp add: sendPrompt_def)

text \<open>
  C5 (as stated) fails at two inputs.  For a port that is not registered \<open>sendPrompt\<close> raises
  at once, without any request.  With \<open>retries = 0\<close> the count is taken for missing, and
  three passes are made rather than one.
\<close>

theorem C5_attempt_count_counterexample: 
  "sendPrompt Map.empty refusing_net 5001 ''hi''
       \<lparr>retries = None, model_format = None, timeout = None\<rparr> =
     (Inl (Error ''No LLM instance registered on port 5001''), [])
   \<and> failed_attempts (snd (sendPrompt [5001 \<mapsto> example_instance] refusing_net 5001 ''hi''
       \<lparr>retries = Some 0, model_format = None, timeout = None\<rparr>)) = 3"
  by (simp add: sendPrompt_def show_int_def digits.simps digit_char_def retry_loop.simps
        attempt_chain_def make_request_def refusing_net_def formatPromptForModel_def Let_def
        example_instance_def)

text \<open>
  C5 (amended): for a port that is not registered \<open>sendPrompt\<close> raises at once and sends
  nothing.  For a registered port, when every request fails and the retry count is
  missing (then \<open>m = 2\<close>) or is an integer \<open>m\<close> of at least 1, \<open>sendPrompt\<close> raises after
  exactly \<open>m + 1\<close> passes over the whole fallback chain, with a delay of 2000 ms before
  each pass but the first, and the error raised is the one of the last request of the last
  pass.  The last conjunct fixes the order of everything the call does: pass after pass, a
  pass being the delay (none for the first pass), then one request to each candidate of the
  chain in order, then the failure line of the pass.
\<close>

theorem C5_all_candidates_fail:
  "(llmInstances port = None \<longrightarrow>
      sendPrompt llmInstances net port prompt config =
        (Inl (Error (''No LLM instance registered on port '' @ show_int (int port))), []))
   \<and> (llmInstances port = Some instance
        \<and> (\<forall>tr rq. \<exists>err. net tr rq = Inl err)
        \<and> (retries config = None \<and> m = 2 \<or> retries config = Some m \<and> 1 \<le> m) \<longrightarrow>
        (\<exists>tr rq err.
           sendPrompt llmInstances net port prompt config =
             (Inl err, tr @ [Sent rq, Attempt_failed (m + 1) (m + 1)])
           \<and> net tr rq = Inl err
           \<and> req_path rq = ''/v1/completions'')
        \<and> failed_attempts (snd (sendPrompt llmInstances net port prompt config)) = nat (m + 1)
        \<and> sent_paths (snd (sendPrompt llmInstances net port prompt config)) =
            concat (replicate (nat (m + 1)) (spec_fallback_chain (effective_format config)))
        \<and> delays (snd (sendPrompt llmInstances net port prompt config)) = replicate (nat m) 2000
        \<and> map outline_of (snd (sendPrompt llmInstances net port prompt config)) =
            concat (map (spec_failed_pass (effective_format config) m) [0..<nat (m + 1)]))"
proof (intro conjI impI)
  assume "llmInstances port = None"
  then show "sendPrompt llmInstances net port prompt config =
        (Inl (Error (''No LLM instance registered on port '' @ show_int (int port))), [])"
    by (rule sendPrompt_unregistered)
next
  assume h: "llmInstances port = Some instance
        \<and> (\<forall>tr rq. \<exists>err. net tr rq = Inl err)
        \<and> (retries config = None \<and> m = 2 \<or> retries config = Some m \<and> 1 \<le> m)"
  then have fail: "\<forall>tr rq. isl (net tr rq)" by (metis sum.disc(1))
  from h have m: "1 \<le> m" by auto
  from h have mr: "(case retries config of Some n \<Rightarrow> (if n = 0 then 2 else n) | None \<Rightarrow> 2) = m"
    by auto
  obtain tmo fp where sp: "sendPrompt llmInstances net port prompt config =
      retry_loop net port (effective_format config) fp tmo m 0 None []"
    using h mr by (simp add: sendPrompt_def Let_def effective_format_def)
  from m have "int 0 \<le> m" and "nat m = nat (m - int 0)" by simp_all
  from retry_loop_all_fail [where net = net and fmt = "effective_format config" and port = port
         and fp = fp and tmo = tmo and le = None and tr = "[]" and j = 0, OF fail this]
  have res: "all_failed_result net (effective_format config) m 0 (Suc (nat m)) []
               (sendPrompt llmInstances net port prompt config)"
    by (simp add: sp)
  have suc: "Suc (nat m) = nat (m + 1)" using m by simp
  from res show "\<exists>tr rq err.
           sendPrompt llmInstances net port prompt config =
             (Inl err, tr @ [Sent rq, Attempt_failed (m + 1) (m + 1)])
           \<and> net tr rq = Inl err
           \<and> req_path rq = ''/v1/completions''"
    unfolding all_failed_result_def by blast
  from res show "failed_attempts (snd (sendPrompt llmInstances net port prompt config)) = nat (m + 1)"
    unfolding all_failed_result_def suc [symmetric] by auto
  from res show "sent_paths (snd (sendPrompt llmInstances net port prompt config)) =
            concat (replicate (nat (m + 1)) (spec_fallback_chain (effective_format config)))"
    unfolding all_failed_result_def suc [symmetric] by auto
  from res show "delays (snd (sendPrompt llmInstances net port prompt config)) = replicate (nat m) 2000"
    unfolding all_failed_result_def by auto
  from res show "map outline_of (snd (sendPrompt llmInstances net port prompt config)) =
            concat (map (spec_failed_pass (effective_format config) m) [0..<nat (m + 1)])"
    unfolding all_failed_result_def suc [symmetric] by auto
qed


theorem C5_all_candidates_fail_witness:
  "fst (sendPrompt [5001 \<mapsto> example_instance] refusing_net 5001 ''hi''
          \<lparr>retries = None, model_format = None, timeout = None\<rparr>) =
     Inl (Error ''Connection error to /v1/completions'')
   \<and> failed_attempts (snd (sendPrompt [5001 \<mapsto> example_instance] refusing_net 5001 ''hi''
          \<lparr>retries = None, model_format = None, timeout = None\<rparr>)) = 3
   \<and> delays (snd (sendPrompt [5001 \<mapsto> example_instance] refusing_net 5001 ''hi''
          \<lparr>retries = None, model_format = None, timeout = None\<rparr>)) = [2000, 2000]
   \<and> sent_paths (snd (sendPrompt [5001 \<mapsto> example_instance] refusing_net 5001 ''hi''
          \<lparr>retries = None, model_format = None, timeout = None\<rparr>)) =
       [''/api/v1/generate'', ''/v1/completions'', ''/api/v1/generate'', ''/v1/completions'',
        ''/api/v1/generate'', ''/v1/completions'']
   \<and> map outline_of (snd (sendPrompt [5001 \<mapsto> example_instance] refusing_net 5001 ''hi''
          \<lparr>retries = None, model_format = None, timeout = None\<rparr>)) =
       [Request_to ''/api/v1/generate'', Request_to ''/v1/completions'', Failure_logged 1 3,
        Wait 2000,
        Request_to ''/api/v1/generate'', Request_to ''/v1/completions'', Failure_logged 2 3,
        Wait 2000,
        Request_to ''/api/v1/generate'', Request_to ''/v1/completions'', Failure_logged 3 3]"
proof -
  let ?reg = "[5001 \<mapsto> example_instance]"
  let ?cfg = "\<lparr>retries = None, model_format = None, timeout = None\<rparr>"
  let ?res = "sendPrompt ?reg refusing_net 5001 ''hi'' ?cfg"
  have h: "?reg 5001 = Some example_instance
        \<and> (\<forall>tr rq. \<exists>err. refusing_net tr rq = Inl err)
        \<and> (retries ?cfg = None \<and> (2::int) = 2 \<or> retries ?cfg = Some 2 \<and> (1::int) \<le> 2)"
    by (simp add: refusing_net_def)
  from C5_all_candidates_fail [of ?reg 5001 refusing_net "''hi''" ?cfg example_instance 2] h
  have all: "(\<exists>tr rq err.
           ?res = (Inl err, tr @ [Sent rq, Attempt_failed (2 + 1) (2 + 1)])
           \<and> refusing_net tr rq = Inl err
           \<and> req_path rq = ''/v1/completions'')
        \<and> failed_attempts (snd ?res) = nat (2 + 1)
        \<and> sent_paths (snd ?res) =
            concat (replicate (nat (2 + 1)) (spec_fallback_chain (effective_format ?cfg)))
        \<and> delays (snd ?res) = replicate (nat 2) 2000
        \<and> map outline_of (snd ?res) =
            concat (map (spec_failed_pass (effective_format ?cfg) 2) [0..<nat (2 + 1)])"
    by (rule conjunct2 [THEN mp])
  then obtain tr rq err where "?res = (Inl err, tr @ [Sent rq, Attempt_failed (2 + 1) (2 + 1)])"
    and "refusing_net tr rq = Inl err" and "req_path rq = ''/v1/completions''"
    by blast
  then have a: "fst ?res = Inl (Error ''Connection error to /v1/completions'')"
    by (simp add: refusing_net_def)
  from all have b: "failed_attempts (snd ?res) = 3" by simp
  have two: "nat 2 = Suc (Suc 0)" by simp
  from all have c: "delays (snd ?res) = [2000, 2000]"
    by (simp only: two replicate.simps)
  from all have "sent_paths (snd ?res) =
            concat (replicate (nat (2 + 1)) (spec_fallback_chain (effective_format ?cfg)))"
    by blast
  then have d: "sent_paths (snd ?res) =
       [''/api/v1/generate'', ''/v1/completions'', ''/api/v1/generate'', ''/v1/completions'',
        ''/api/v1/generate'', ''/v1/completions'']"
    by (simp add: spec_fallback_chain_def effective_format_def eval_nat_numeral)
  from all have "map outline_of (snd ?res) =
            concat (map (spec_failed_pass (effective_format ?cfg) 2) [0..<nat (2 + 1)])"
    by blast
  then have e: "map outline_of (snd ?res) =
       [Request_to ''/api/v1/generate'', Request_to ''/v1/completions'', Failure_logged 1 3,
        Wait 2000,
        Request_to ''/api/v1/generate'', Request_to ''/v1/completions'', Failure_logged 2 3,
        Wait 2000,
        Request_to ''/api/v1/generate'', Request_to ''/v1/completions'', Failure_logged 3 3]"
    by (simp add: spec_failed_pass_def spec_fallback_chain_def effective_format_def
          eval_nat_numeral upt_rec)
  from a b c d e show ?thesis by blast
qed

section \<open>Properties of the run coordinator\<close>

subsection \<open>Numbers\<close>

lemmas double_eval =
  progress_percent_def js_times_def js_divide_def nearest_double_def double_value_def
  bit_length.simps default_temperature_def Let_def

lemma progress_percent_examples:
  "progress_percent 0 3 = 0"
  "progress_percent 1 3 = 2345624805922133 / 70368744177664"
  "progress_percent 2 3 = 2345624805922133 / 35184372088832"
  "progress_percent 7 25 = 28 + 1 / 2 ^ 48"
  by (simp_all add: double_eval)

lemma default_temperature_value: "default_temperature = 5404319552844595 / 9007199254740992"
  by (simp add: double_eval)

subsection \<open>One step, the loop, the try block\<close>

lemma stored_append [simp]: "stored (a @ b) = stored a @ stored b"
  by (induction a rule: stored.induct) auto

lemma broadcasts_append [simp]: "broadcasts (a @ b) = broadcasts a @ broadcasts b"
  by (induction a rule: broadcasts.induct) auto

lemma response_rows_append [simp]:
  "response_rows (a @ b) = response_rows a @ response_rows b"
  by (induction a rule: response_rows.induct) auto

lemma status_updates_append [simp]:
  "status_updates r (a @ b) = status_updates r a @ status_updates r b"
  by (induction r a rule: status_updates.induct) auto

lemma stored_errors_append [simp]:
  "stored_errors r (a @ b) = stored_errors r a @ stored_errors r b"
  by (induction r a rule: stored_errors.induct) auto

lemma failure_events_append [simp]:
  "failure_events (a @ b) = failure_events a @ failure_events b"
  by (induction a rule: failure_events.induct) auto

lemma perform_simps [simp]:
  "effects (perform st x) = effects st @ [x]"
  "run_context (perform st x) = run_context st"
  "db_calls (perform st x) = db_calls st"
  by (simp_all add: perform_def)

lemma emit_simps [simp]:
  "effects (emit e st ev) = effects st @ (if broadcast_set e then [Broadcast ev] else [])"
  "run_context (emit e st ev) = run_context st"
  "db_calls (emit e st ev) = db_calls st"
  by (simp_all add: emit_def)


lemma process_payload_ok:
  assumes "process_payload e r n i p st = (st', None)"
  shows "\<exists>prompt txt md.
           effects st' = effects st @ spec_step_effects (broadcast_set e) r n i [(p, prompt, txt, md)]
         \<and> db_calls st' = Suc (db_calls st)
         \<and> db_run_error e (db_calls st) = None
         \<and> map payloadId (responses (run_context st')) =
             map payloadId (responses (run_context st)) @ [payload_id p]"
  using assms
  by (auto simp: process_payload_def Let_def db_run_def step_calls_def
           split: sum.splits option.splits prod.splits jsval.splits if_splits)

lemma process_payload_raise:
  assumes "process_payload e r n i p st = (st', Some err)"
  shows "\<exists>xs. effects st' = effects st @
             (if broadcast_set e
              then [Broadcast (Execution_progress r (payload_id p) (payload_name p)
                                 (progress_percent i n))]
              else []) @ xs
         \<and> failed_step_effects r p err xs
         \<and> run_context st' = run_context st"
  using assms
  by (auto simp: process_payload_def Let_def db_run_def step_calls_def failed_step_effects_def
           split: sum.splits option.splits prod.splits jsval.splits if_splits)

lemma spec_step_events_append:
  "spec_step_events r n i (a @ b) =
     spec_step_events r n i a @ spec_step_events r n (i + length a) b"
  by (induction r n i a rule: spec_step_events.induct) auto

lemma spec_step_effects_append:
  "spec_step_effects c r n i (a @ b) =
     spec_step_effects c r n i a @ spec_step_effects c r n (i + length a) b"
  by (induction c r n i a rule: spec_step_effects.induct) auto

lemma step_rows_append: "step_rows r (a @ b) = step_rows r a @ step_rows r b"
  by (simp add: step_rows_def)

lemma stored_step_calls [simp]: "stored (step_calls p prompt) = []"
  by (simp add: step_calls_def)

lemma broadcasts_step_calls [simp]: "broadcasts (step_calls p prompt) = []"
  by (simp add: step_calls_def)

lemma stored_spec_step_effects: "stored (spec_step_effects c r n i fin) = step_rows r fin"
  by (induction c r n i fin rule: spec_step_effects.induct) (auto simp: step_rows_def)


lemma failed_step_effects_projections:
  assumes "failed_step_effects r p err xs"
  shows "broadcasts xs = []"
    and "stored xs = []
         \<or> (\<exists>prompt txt md. stored xs = step_rows r [(p, prompt, txt, md)] \<and> err = trim_error)"
  using assms by (auto simp: failed_step_effects_def step_rows_def trim_error_def)



lemma response_rows_step_rows:
  "response_rows (step_rows r finished) = map (\<lambda>x. (r, payload_id (fst x))) finished"
  by (induction "finished") (auto simp: step_rows_def)

lemma status_updates_step_rows: "status_updates r' (step_rows r finished) = []"
  by (induction "finished") (auto simp: step_rows_def)


lemma run_payloads_ok:
  "run_payloads e r n i ps st = (st', None) \<Longrightarrow>
   \<exists>finished. map fst finished = ps
      \<and> effects st' = effects st @ spec_step_effects (broadcast_set e) r n i finished
      \<and> db_calls st' = db_calls st + length ps
      \<and> (\<forall>k < length ps. db_run_error e (db_calls st + k) = None)"
proof (induction ps arbitrary: i st)
  case Nil
  then show ?case by (auto intro: exI [of _ "[]"])
next
  case (Cons p ps)
  from Cons.prems obtain st1 where
    one: "process_payload e r n i p st = (st1, None)"
    and rest: "run_payloads e r n (Suc i) ps st1 = (st', None)"
    by (auto split: prod.splits option.splits)
  from process_payload_ok [OF one] obtain pr tx md where
    ef1: "effects st1 = effects st @ spec_step_effects (broadcast_set e) r n i [(p, pr, tx, md)]"
    and c1: "db_calls st1 = Suc (db_calls st)"
    and ok1: "db_run_error e (db_calls st) = None"
    by blast
  from Cons.IH [OF rest] obtain fin' where
    m: "map fst fin' = ps"
    and ef2: "effects st' = effects st1 @ spec_step_effects (broadcast_set e) r n (Suc i) fin'"
    and c2: "db_calls st' = db_calls st1 + length ps"
    and ok2: "\<forall>k < length ps. db_run_error e (db_calls st1 + k) = None"
    by blast
  have ok: "\<forall>k < length (p # ps). db_run_error e (db_calls st + k) = None"
  proof (intro allI impI)
    fix k assume "k < length (p # ps)"
    then show "db_run_error e (db_calls st + k) = None"
      using ok1 ok2 c1 by (cases k) auto
  qed
  have "effects st' =
          effects st @ spec_step_effects (broadcast_set e) r n i ([(p, pr, tx, md)] @ fin')"
    unfolding spec_step_effects_append using ef1 ef2 by simp
  with m c1 c2 ok show ?case
    by (intro exI [of _ "(p, pr, tx, md) # fin'"]) simp
qed

lemma run_payloads_raise:
  "run_payloads e r n i ps st = (st', Some err) \<Longrightarrow>
   \<exists>finished p rest xs. ps = map fst finished @ p # rest
      \<and> effects st' = effects st @ spec_step_effects (broadcast_set e) r n i finished
          @ (if broadcast_set e
             then [Broadcast (Execution_progress r (payload_id p) (payload_name p)
                                (progress_percent (i + length finished) n))]
             else [])
          @ xs
      \<and> failed_step_effects r p err xs"
proof (induction ps arbitrary: i st)
  case Nil
  then show ?case by simp
next
  case (Cons p ps)
  show ?case
  proof (cases "process_payload e r n i p st")
    case (Pair st1 res)
    show ?thesis
    proof (cases res)
      case (Some err1)
      with Pair Cons.prems have eq: "st' = st1" "err = err1" by auto
      from process_payload_raise [of e r n i p st st' err] Pair Some eq
      obtain xs where "effects st' = effects st @
             (if broadcast_set e
              then [Broadcast (Execution_progress r (payload_id p) (payload_name p)
                                 (progress_percent i n))]
              else []) @ xs"
        and "failed_step_effects r p err xs"
        by auto
      then have "p # ps = map fst ([] :: step_result list) @ p # ps
          \<and> effects st' = effects st @ spec_step_effects (broadcast_set e) r n i []
          @ (if broadcast_set e
             then [Broadcast (Execution_progress r (payload_id p) (payload_name p)
                                (progress_percent (i + length ([] :: step_result list)) n))]
             else [])
          @ xs
          \<and> failed_step_effects r p err xs"
        by simp
      then show ?thesis by blast
    next
      case None
      with Pair Cons.prems have rest: "run_payloads e r n (Suc i) ps st1 = (st', Some err)"
        by simp
      from process_payload_ok [of e r n i p st st1] Pair None obtain pr tx md where
        ef1: "effects st1 =
                effects st @ spec_step_effects (broadcast_set e) r n i [(p, pr, tx, md)]"
        by auto
      from Cons.IH [OF rest] obtain fin' q rest' xs where
        ps: "ps = map fst fin' @ q # rest'"
        and ef2: "effects st' = effects st1 @ spec_step_effects (broadcast_set e) r n (Suc i) fin'
          @ (if broadcast_set e
             then [Broadcast (Execution_progress r (payload_id q) (payload_name q)
                                (progress_percent (Suc i + length fin') n))]
             else [])
          @ xs"
        and f: "failed_step_effects r q err xs"
        by blast
      have "p # ps = map fst ((p, pr, tx, md) # fin') @ q # rest'
        \<and> effects st' = effects st
          @ spec_step_effects (broadcast_set e) r n i ((p, pr, tx, md) # fin')
          @ (if broadcast_set e
             then [Broadcast (Execution_progress r (payload_id q) (payload_name q)
                                (progress_percent (i + length ((p, pr, tx, md) # fin')) n))]
             else [])
          @ xs
        \<and> failed_step_effects r q err xs"
        using ps ef1 ef2 f by simp
      then show ?thesis by blast
    qed
  qed
qed

lemma initial_state_simps [simp]:
  "effects initial_state = []" "db_calls initial_state = 0"
  "run_context initial_state = \<lparr>responses = []\<rparr>"
  by (simp_all add: initial_state_def)


lemmas exec_eval =
  executeWorkflowAsync_def try_block_def process_payload_def emit_def db_run_def perform_def
  assemble_prompt_def process_block_def replaceVariables_def substitute_variables_def
  match_variable_def llmConfig_of_def processResponse_def js_or_def opt_prop_def
  js_gt_zero_def trim_def js_space_def initial_state_def Let_def
  previous_response_separator_def db_writes_def events_def
  example_env_def example_payloads_def example_payload_def



subsection \<open>Claims about the event feed and the failure path\<close>




text \<open>
  When the store rejects the update of the \<open>catch\<close> block, its exception escapes the
  function: the status is not written and \<open>workflow_failed\<close> is not sent.
\<close>

lemma failed_update_rejected_escapes:
  assumes "try_block e r ps = (st, Some err)"
    and "db_run_error e (db_calls st) = Some err'"
  shows "executeWorkflowAsync e w r ps =
           (perform (st\<lparr>db_calls := db_calls st + 1\<rparr>)
              (Rejected (Update_run_failed r (message err)) err'),
            Some err')"
  using assms by (simp add: executeWorkflowAsync_def db_run_def)




subsection \<open>The response rows and the status of a run\<close>

lemma response_rows_of_steps:
  "response_rows (step_rows r fin) = map (\<lambda>p. (r, payload_id p)) (map fst fin)"
  by (simp add: response_rows_step_rows)

text \<open>
  A step that raises leaves the rows of the steps before it, and its own row only when
  the exception is the one of \<open>processed.text.trim()\<close>.
\<close>

lemma rows_of_raise:
  assumes "run_payloads e r (length ps) 0 ps initial_state = (st, Some err)"
  shows "\<exists>k \<le> length ps.
           response_rows (db_writes st) = map (\<lambda>p. (r, payload_id p)) (take k ps)
         \<and> (err \<noteq> trim_error \<longrightarrow> k < length ps)
         \<and> status_updates r (db_writes st) = []"
proof -
  from run_payloads_raise [OF assms]
  obtain fin p rest xs where ps: "ps = map fst fin @ p # rest"
    and ef: "effects st = effects initial_state
          @ spec_step_effects (broadcast_set e) r (length ps) 0 fin
          @ (if broadcast_set e
             then [Broadcast (Execution_progress r (payload_id p) (payload_name p)
                                (progress_percent (0 + length fin) (length ps)))]
             else [])
          @ xs"
    and fs: "failed_step_effects r p err xs"
    by blast
  from ef have w: "db_writes st = step_rows r fin @ stored xs"
    by (simp add: db_writes_def stored_spec_step_effects)
  from failed_step_effects_projections(2) [OF fs] show ?thesis
  proof
    assume "stored xs = []"
    with w have "response_rows (db_writes st) = map (\<lambda>p. (r, payload_id p)) (take (length fin) ps)"
      and "status_updates r (db_writes st) = []"
      using ps by (simp_all add: response_rows_of_steps status_updates_step_rows)
    moreover have "length fin < length ps" using ps by simp
    ultimately show ?thesis by (intro exI [of _ "length fin"]) simp
  next
    assume "\<exists>prompt txt md. stored xs = step_rows r [(p, prompt, txt, md)] \<and> err = trim_error"
    then obtain pr tx md where sx: "stored xs = step_rows r [(p, pr, tx, md)]"
      and e: "err = trim_error" by auto
    from w sx have w': "db_writes st = step_rows r (fin @ [(p, pr, tx, md)])"
      by (simp add: step_rows_append)
    from w' ps have "response_rows (db_writes st) =
         map (\<lambda>p. (r, payload_id p)) (take (Suc (length fin)) ps)"
      and "status_updates r (db_writes st) = []"
      by (simp_all add: response_rows_of_steps status_updates_step_rows)
    moreover have "Suc (length fin) \<le> length ps" using ps by simp
    ultimately show ?thesis using e by (intro exI [of _ "Suc (length fin)"]) simp
  qed
qed

text \<open>
  The update of \<open>$.models\<close> comes after the update to \<open>completed\<close> and inside the same
  \<open>try\<close>: a store that rejects it makes the coordinator write \<open>completed\<close> and then
  \<open>failed\<close> to the same run.
\<close>

lemma models_update_rejected_writes_two_statuses:
  "status_updates 7 (db_writes
         (fst (executeWorkflowAsync models_update_fails_env (JNum 3) 7
                 [example_payload 11 ''s1'']))) =
       [''completed'', ''failed'']"
  by (simp add: exec_eval models_update_fails_env_def double_eval)

text \<open>
  C9: the code breaks the claim.  A backend that answers \<open>{"result": 5}\<close> makes the only
  step of a run store its row and then raise at \<open>processed.text.trim()\<close>: the run is set to
  \<open>failed\<close> with as many response rows as it has steps, where the claim has strictly fewer.
  The flat branch of the normalisation hands on \<open>response.result\<close> as it is.  The other
  branches pass the text through \<open>cleanCorruptedText\<close>: with the same number in the reply
  \<open>{"choices": [{"text": 5}]}\<close> the normalisation raises, before the insertion, and the
  failed run has no row.
\<close>

theorem C9_row_stored_by_failing_step:
  "effects (fst (executeWorkflowAsync numeric_result_env (JNum 3) 7 [example_payload 11 ''s1''])) =
     [Broadcast (Execution_progress 7 11 ''s1'' 0),
      Query_blocks 11,
      Get_model_info 5001,
      Send_prompt 5001 ''Go'' (llmConfig_of (example_payload 11 ''s1'')),
      Stored (Insert_response 7 11 (JNum 5) example_metadata),
      Stored (Update_run_failed 7 ''processed.text.trim is not a function''),
      Broadcast (Workflow_failed 7 ''processed.text.trim is not a function'')]
   \<and> length (response_rows (db_writes
         (fst (executeWorkflowAsync numeric_result_env (JNum 3) 7 [example_payload 11 ''s1''])))) =
       length [example_payload 11 ''s1'']
   \<and> status_updates 7 (db_writes
         (fst (executeWorkflowAsync numeric_result_env (JNum 3) 7 [example_payload 11 ''s1'']))) =
       [''failed'']
   \<and> db_writes
         (fst (executeWorkflowAsync numeric_choice_env (JNum 3) 7 [example_payload 11 ''s1''])) =
       [Update_run_failed 7 ''text.includes is not a function'']"
  by (simp add: exec_eval numeric_result_env_def numeric_choice_env_def example_metadata_def
        double_eval cleanCorruptedText_def)

subsection \<open>Claims about starting a run\<close>

lemma progress_percent_zero [simp]: "progress_percent 0 n = 0"
  by (simp add: double_eval)

lemma process_payload_starts:
  assumes "process_payload e r n i p st = (st', res)"
  shows "\<exists>rest. effects st' = effects st
           @ (if broadcast_set e
              then [Broadcast (Execution_progress r (payload_id p) (payload_name p)
                                 (progress_percent i n))]
              else [])
           @ Query_blocks (payload_id p) # rest"
proof (cases res)
  case None
  with process_payload_ok [of e r n i p st st'] assms show ?thesis
    by (auto simp: step_calls_def)
next
  case (Some err)
  with process_payload_raise [of e r n i p st st' err] assms show ?thesis
    by (auto simp: step_calls_def failed_step_effects_def)
qed

lemma run_payloads_extends:
  "run_payloads e r n i ps st = (st', res) \<Longrightarrow> \<exists>rest. effects st' = effects st @ rest"
proof (cases res)
  case None
  assume "run_payloads e r n i ps st = (st', res)"
  with None run_payloads_ok [of e r n i ps st st'] show ?thesis by auto
next
  case (Some err)
  assume "run_payloads e r n i ps st = (st', res)"
  with Some run_payloads_raise [of e r n i ps st st' err] show ?thesis by auto
qed

lemma db_run_extends: "\<exists>rest. effects (fst (db_run e st w)) = effects st @ rest"
  by (simp add: db_run_def split: option.splits)

lemma try_block_extends:
  "\<exists>rest. effects (fst (try_block e r ps)) =
     effects (fst (run_payloads e r (length ps) 0 ps initial_state)) @ rest"
  by (auto simp: try_block_def db_run_def Let_def split: prod.splits option.splits)

lemma executeWorkflowAsync_extends:
  "\<exists>rest. effects (fst (executeWorkflowAsync e w r ps)) = effects (fst (try_block e r ps)) @ rest"
  by (auto simp: executeWorkflowAsync_def db_run_def split: prod.splits option.splits)

text \<open>
  An execution begins with the progress message of the first step, if messages are
  broadcast, and the query for the blocks of that step, which is its first \<open>await\<close>.
\<close>

lemma executeWorkflowAsync_starts:
  "\<exists>rest. effects (fst (executeWorkflowAsync e w r (p # ps))) =
     (if broadcast_set e
      then [Broadcast (Execution_progress r (payload_id p) (payload_name p) 0)]
      else [])
     @ Query_blocks (payload_id p) # rest"
proof -
  let ?n = "length (p # ps)"
  obtain st1 res1 where one: "process_payload e r ?n 0 p initial_state = (st1, res1)"
    by (cases "process_payload e r ?n 0 p initial_state")
  from process_payload_starts [OF one] obtain rest1 where
    e1: "effects st1 =
           (if broadcast_set e
            then [Broadcast (Execution_progress r (payload_id p) (payload_name p) 0)]
            else [])
           @ Query_blocks (payload_id p) # rest1"
    by auto
  have "\<exists>rest2. effects (fst (run_payloads e r ?n 0 (p # ps) initial_state)) = effects st1 @ rest2"
  proof (cases res1)
    case (Some err)
    with one show ?thesis by simp
  next
    case None
    obtain st2 res2 where two: "run_payloads e r ?n (Suc 0) ps st1 = (st2, res2)"
      by (cases "run_payloads e r ?n (Suc 0) ps st1")
    from run_payloads_extends [OF two] one None two show ?thesis by simp
  qed
  then obtain rest2 where
    e2: "effects (fst (run_payloads e r ?n 0 (p # ps) initial_state)) = effects st1 @ rest2"
    by blast
  from try_block_extends [of e r "p # ps"] obtain rest3 where
    e3: "effects (fst (try_block e r (p # ps))) =
           effects (fst (run_payloads e r ?n 0 (p # ps) initial_state)) @ rest3"
    by blast
  from executeWorkflowAsync_extends [of e w r "p # ps"] obtain rest4 where
    e4: "effects (fst (executeWorkflowAsync e w r (p # ps))) =
           effects (fst (try_block e r (p # ps))) @ rest4"
    by blast
  from e1 e2 e3 e4 show ?thesis by simp
qed

lemma await_split:
  "before_first_await ((if c then [Broadcast ev] else []) @ Query_blocks n # rest) =
     (if c then [Broadcast ev] else []) @ [Query_blocks n]"
  "after_first_await ((if c then [Broadcast ev] else []) @ Query_blocks n # rest) = rest"
  by (simp_all add: before_first_await_def after_first_await_def)

lemma answers_append [simp]: "answers (a @ b) = answers a @ answers b"
  by (induction a rule: answers.induct) auto

lemma answers_map_Effect [simp]: "answers (map Effect xs) = []"
  by (induction xs) auto

lemma all_effects_append [simp]: "all_effects (a @ b) = all_effects a @ all_effects b"
  by (induction a rule: all_effects.induct) auto

lemma all_effects_map_Effect [simp]: "all_effects (map Effect xs) = xs"
  by (induction xs) auto

lemma effects_before_answer_map_Effect [simp]:
  "effects_before_answer (map Effect xs @ Respond code body # ys) = xs"
  by (induction xs) auto

text \<open>
  C8 (as stated) fails at three places.  For a pipeline that exists and has no steps the
  handler answers with status 400 (bad request), not with a not-found condition.  The
  handler of \<open>POST /\<close> calls \<open>executeWorkflowAsync\<close> before it answers: the progress message
  of the first step and the query for its blocks come before the answer.  And a run
  started with \<open>POST /workflow/:id\<close> is created with the status \<open>IN_PROGRESS\<close>, not \<open>running\<close>.
\<close>

theorem C8_start_counterexample:
  "post_execute empty_workflow_store example_env (JNum 3) =
     [Respond 400 (Error_body ''Workflow has no payloads to execute'')]
   \<and> take 4 (post_execute example_store example_env (JNum 3)) =
     [Effect (Stored (Insert_run (JNum 3) ''running'' ''demo'' 3)),
      Effect (Broadcast (Execution_progress 7 11 ''s1'' 0)),
      Effect (Query_blocks 11),
      Respond 200 (Started 7 ''Workflow execution started'' ''running'')]
   \<and> take 2 (post_execute_workflow example_store example_env ''3'') =
     [Effect (Stored (Insert_run_bare (JStr ''3'') ''IN_PROGRESS'')),
      Respond 202 (Accepted ''Workflow execution started'' 7)]"
  by (simp add: post_execute_def post_execute_workflow_def empty_workflow_store_def
        example_store_def before_first_await_def after_first_await_def exec_eval double_eval)

text \<open>
  C8 (amended), for both ways to start a run, \<open>POST /\<close> and \<open>POST /workflow/:id\<close>.  A request
  naming a pipeline that does not exist is answered with status 404, a request naming a
  pipeline with zero steps with status 400, and the answer is all that the request does:
  no run row is written and no execution is started.  Every request is answered exactly
  once, and whenever the answer is not the one of success (200, respectively 202) it is
  all that the request does.  For a pipeline with at least one step (and a store that
  answers) the run row is inserted first, with the status \<open>running\<close> by \<open>POST /\<close> and the
  status \<open>IN_PROGRESS\<close> by \<open>POST /workflow/:id\<close>, and the answer carries the generated run
  identifier.  \<open>POST /workflow/:id\<close> answers before anything of the execution;
  \<open>POST /\<close> answers when the execution has sent the progress message of the first step (if
  messages are broadcast) and issued the query for the blocks of that step, and before
  anything else of the execution: in both cases before any call of the LLM service and
  before any response row.  The rest of the execution follows the answer.
\<close>

theorem C8_start:
  "(truthy workflowId \<and> db_get_workflow s workflowId = Inr None \<longrightarrow>
      post_execute s e workflowId = [Respond 404 (Error_body ''Workflow not found'')])
   \<and> (truthy workflowId \<and> db_get_workflow s workflowId = Inr (Some wflow)
        \<and> db_all_payloads s workflowId = Inr [] \<longrightarrow>
      post_execute s e workflowId =
        [Respond 400 (Error_body ''Workflow has no payloads to execute'')])
   \<and> (path \<noteq> [] \<and> db_get_workflow s (JStr path) = Inr None \<longrightarrow>
      post_execute_workflow s e path = [Respond 404 (Error_body ''Workflow not found'')])
   \<and> (path \<noteq> [] \<and> db_get_workflow s (JStr path) = Inr (Some wflow)
        \<and> db_all_payloads s (JStr path) = Inr [] \<longrightarrow>
      post_execute_workflow s e path =
        [Respond 400 (Error_body ''Workflow has no payloads to execute'')])
   \<and> length (answers (post_execute s e workflowId)) = 1
   \<and> length (answers (post_execute_workflow s e path)) = 1
   \<and> (fst (hd (answers (post_execute s e workflowId))) \<noteq> 200 \<longrightarrow>
        all_effects (post_execute s e workflowId) = [])
   \<and> (fst (hd (answers (post_execute_workflow s e path))) \<noteq> 202 \<longrightarrow>
        all_effects (post_execute_workflow s e path) = [])
   \<and> (truthy workflowId \<and> db_get_workflow s workflowId = Inr (Some wflow)
        \<and> db_all_payloads s workflowId = Inr (p # ps)
        \<and> db_insert_run s = Inr runId \<longrightarrow>
        (\<exists>rest.
           effects (fst (executeWorkflowAsync e workflowId runId (p # ps))) =
             (if broadcast_set e
              then [Broadcast (Execution_progress runId (payload_id p) (payload_name p) 0)]
              else [])
             @ Query_blocks (payload_id p) # rest
         \<and> post_execute s e workflowId =
             [Effect (Stored (Insert_run workflowId ''running'' (workflow_name wflow)
                                (length (p # ps))))]
             @ (if broadcast_set e
                then [Effect (Broadcast (Execution_progress runId (payload_id p)
                                           (payload_name p) 0))]
                else [])
             @ [Effect (Query_blocks (payload_id p)),
                Respond 200 (Started runId ''Workflow execution started'' ''running'')]
             @ map Effect rest))
   \<and> (path \<noteq> [] \<and> db_get_workflow s (JStr path) = Inr (Some wflow)
        \<and> db_all_payloads s (JStr path) = Inr (p # ps)
        \<and> db_insert_run s = Inr runId \<longrightarrow>
        post_execute_workflow s e path =
          [Effect (Stored (Insert_run_bare (JStr path) ''IN_PROGRESS'')),
           Respond 202 (Accepted ''Workflow execution started'' runId)]
          @ map Effect (effects (fst (executeWorkflowAsync e (JStr path) runId (p # ps)))))"
proof (intro conjI impI)
  assume "truthy workflowId \<and> db_get_workflow s workflowId = Inr None"
  then show "post_execute s e workflowId = [Respond 404 (Error_body ''Workflow not found'')]"
    by (simp add: post_execute_def)
next
  assume "truthy workflowId \<and> db_get_workflow s workflowId = Inr (Some wflow)
        \<and> db_all_payloads s workflowId = Inr []"
  then show "post_execute s e workflowId =
        [Respond 400 (Error_body ''Workflow has no payloads to execute'')]"
    by (simp add: post_execute_def)
next
  assume "path \<noteq> [] \<and> db_get_workflow s (JStr path) = Inr None"
  then show "post_execute_workflow s e path = [Respond 404 (Error_body ''Workflow not found'')]"
    by (simp add: post_execute_workflow_def)
next
  assume "path \<noteq> [] \<and> db_get_workflow s (JStr path) = Inr (Some wflow)
        \<and> db_all_payloads s (JStr path) = Inr []"
  then show "post_execute_workflow s e path =
        [Respond 400 (Error_body ''Workflow has no payloads to execute'')]"
    by (simp add: post_execute_workflow_def)
next
  show "length (answers (post_execute s e workflowId)) = 1"
    by (simp add: post_execute_def Let_def split: sum.splits option.splits)
next
  show "length (answers (post_execute_workflow s e path)) = 1"
    by (simp add: post_execute_workflow_def split: sum.splits option.splits)
next
  assume "fst (hd (answers (post_execute s e workflowId))) \<noteq> 200"
  then show "all_effects (post_execute s e workflowId) = []"
    by (simp add: post_execute_def Let_def split: sum.splits option.splits if_splits)
next
  assume "fst (hd (answers (post_execute_workflow s e path))) \<noteq> 202"
  then show "all_effects (post_execute_workflow s e path) = []"
    by (simp add: post_execute_workflow_def split: sum.splits option.splits if_splits)
next
  assume h: "truthy workflowId \<and> db_get_workflow s workflowId = Inr (Some wflow)
        \<and> db_all_payloads s workflowId = Inr (p # ps)
        \<and> db_insert_run s = Inr runId"
  from executeWorkflowAsync_starts [of e workflowId runId p ps]
  obtain rest where st:
    "effects (fst (executeWorkflowAsync e workflowId runId (p # ps))) =
       (if broadcast_set e
        then [Broadcast (Execution_progress runId (payload_id p) (payload_name p) 0)]
        else [])
       @ Query_blocks (payload_id p) # rest"
    by blast
  have "post_execute s e workflowId =
             [Effect (Stored (Insert_run workflowId ''running'' (workflow_name wflow)
                                (length (p # ps))))]
             @ (if broadcast_set e
                then [Effect (Broadcast (Execution_progress runId (payload_id p)
                                           (payload_name p) 0))]
                else [])
             @ [Effect (Query_blocks (payload_id p)),
                Respond 200 (Started runId ''Workflow execution started'' ''running'')]
             @ map Effect rest"
    using h by (simp add: post_execute_def Let_def st await_split)
  with st show "\<exists>rest.
           effects (fst (executeWorkflowAsync e workflowId runId (p # ps))) =
             (if broadcast_set e
              then [Broadcast (Execution_progress runId (payload_id p) (payload_name p) 0)]
              else [])
             @ Query_blocks (payload_id p) # rest
         \<and> post_execute s e workflowId =
             [Effect (Stored (Insert_run workflowId ''running'' (workflow_name wflow)
                                (length (p # ps))))]
             @ (if broadcast_set e
                then [Effect (Broadcast (Execution_progress runId (payload_id p)
                                           (payload_name p) 0))]
                else [])
             @ [Effect (Query_blocks (payload_id p)),
                Respond 200 (Started runId ''Workflow execution started'' ''running'')]
             @ map Effect rest"
    by blast
next
  assume "path \<noteq> [] \<and> db_get_workflow s (JStr path) = Inr (Some wflow)
        \<and> db_all_payloads s (JStr path) = Inr (p # ps)
        \<and> db_insert_run s = Inr runId"
  then show "post_execute_workflow s e path =
          [Effect (Stored (Insert_run_bare (JStr path) ''IN_PROGRESS'')),
           Respond 202 (Accepted ''Workflow execution started'' runId)]
          @ map Effect (effects (fst (executeWorkflowAsync e (JStr path) runId (p # ps))))"
    by (simp add: post_execute_workflow_def)
qed

theorem C8_start_witness:
  "post_execute example_store example_env (JNum 4) =
     [Respond 404 (Error_body ''Workflow not found'')]
   \<and> all_effects (post_execute example_store example_env (JNum 4)) = []
   \<and> post_execute empty_workflow_store example_env (JNum 3) =
     [Respond 400 (Error_body ''Workflow has no payloads to execute'')]
   \<and> post_execute_workflow example_store example_env ''4'' =
     [Respond 404 (Error_body ''Workflow not found'')]
   \<and> all_effects (post_execute_workflow example_store example_env ''4'') = []
   \<and> post_execute_workflow empty_workflow_store example_env ''3'' =
     [Respond 400 (Error_body ''Workflow has no payloads to execute'')]
   \<and> take 4 (post_execute example_store example_env (JNum 3)) =
     [Effect (Stored (Insert_run (JNum 3) ''running'' ''demo'' 3)),
      Effect (Broadcast (Execution_progress 7 11 ''s1'' 0)),
      Effect (Query_blocks 11),
      Respond 200 (Started 7 ''Workflow execution started'' ''running'')]
   \<and> post_execute_workflow example_store example_env ''3'' =
     [Effect (Stored (Insert_run_bare (JStr ''3'') ''IN_PROGRESS'')),
      Respond 202 (Accepted ''Workflow execution started'' 7)]
     @ map Effect (effects (fst (executeWorkflowAsync example_env (JStr ''3'') 7
                                   example_payloads)))"
proof -
  let ?p = "example_payload 11 ''s1''"
  let ?ps = "[example_payload 12 ''s2'', example_payload 13 ''s3'']"
  let ?demo = "\<lparr>workflow_name = ''demo''\<rparr>"
  let ?empty = "\<lparr>workflow_name = ''empty''\<rparr>"
  note missing = C8_start [where workflowId = "JNum 4" and s = example_store
      and e = example_env and path = "''4''" and wflow = ?demo and p = ?p and ps = ?ps
      and runId = 7]
  note no_steps = C8_start [where workflowId = "JNum 3" and s = empty_workflow_store
      and e = example_env and path = "''3''" and wflow = ?empty and p = ?p and ps = ?ps
      and runId = 1]
  note valid = C8_start [where workflowId = "JNum 3" and s = example_store
      and e = example_env and path = "''3''" and wflow = ?demo and p = ?p and ps = ?ps
      and runId = 7]
  have h1: "truthy (JNum 4) \<and> db_get_workflow example_store (JNum 4) = Inr None"
    by (simp add: example_store_def)
  have h2: "''4'' \<noteq> [] \<and> db_get_workflow example_store (JStr ''4'') = Inr None"
    by (simp add: example_store_def)
  have h3: "truthy (JNum 3) \<and> db_get_workflow empty_workflow_store (JNum 3) = Inr (Some ?empty)
        \<and> db_all_payloads empty_workflow_store (JNum 3) = Inr []"
    by (simp add: empty_workflow_store_def)
  have h4: "''3'' \<noteq> [] \<and> db_get_workflow empty_workflow_store (JStr ''3'') = Inr (Some ?empty)
        \<and> db_all_payloads empty_workflow_store (JStr ''3'') = Inr []"
    by (simp add: empty_workflow_store_def)
  have h5: "truthy (JNum 3) \<and> db_get_workflow example_store (JNum 3) = Inr (Some ?demo)
        \<and> db_all_payloads example_store (JNum 3) = Inr (?p # ?ps)
        \<and> db_insert_run example_store = Inr 7"
    by (simp add: example_store_def example_payloads_def)
  have h6: "''3'' \<noteq> [] \<and> db_get_workflow example_store (JStr ''3'') = Inr (Some ?demo)
        \<and> db_all_payloads example_store (JStr ''3'') = Inr (?p # ?ps)
        \<and> db_insert_run example_store = Inr 7"
    by (simp add: example_store_def example_payloads_def)
  from missing h1 have a: "post_execute example_store example_env (JNum 4) =
     [Respond 404 (Error_body ''Workflow not found'')]"
    by blast
  then have "fst (hd (answers (post_execute example_store example_env (JNum 4)))) \<noteq> 200"
    by simp
  with missing have a': "all_effects (post_execute example_store example_env (JNum 4)) = []"
    by blast
  from missing h2 have b: "post_execute_workflow example_store example_env ''4'' =
     [Respond 404 (Error_body ''Workflow not found'')]"
    by blast
  then have "fst (hd (answers (post_execute_workflow example_store example_env ''4''))) \<noteq> 202"
    by simp
  with missing have b': "all_effects (post_execute_workflow example_store example_env ''4'') = []"
    by blast
  from no_steps h3 have c: "post_execute empty_workflow_store example_env (JNum 3) =
     [Respond 400 (Error_body ''Workflow has no payloads to execute'')]"
    by blast
  from no_steps h4 have d: "post_execute_workflow empty_workflow_store example_env ''3'' =
     [Respond 400 (Error_body ''Workflow has no payloads to execute'')]"
    by blast
  from valid h5 obtain rest where
    "post_execute example_store example_env (JNum 3) =
             [Effect (Stored (Insert_run (JNum 3) ''running'' (workflow_name ?demo)
                                (length (?p # ?ps))))]
             @ (if broadcast_set example_env
                then [Effect (Broadcast (Execution_progress 7 (payload_id ?p)
                                           (payload_name ?p) 0))]
                else [])
             @ [Effect (Query_blocks (payload_id ?p)),
                Respond 200 (Started 7 ''Workflow execution started'' ''running'')]
             @ map Effect rest"
    by blast
  then have f: "take 4 (post_execute example_store example_env (JNum 3)) =
     [Effect (Stored (Insert_run (JNum 3) ''running'' ''demo'' 3)),
      Effect (Broadcast (Execution_progress 7 11 ''s1'' 0)),
      Effect (Query_blocks 11),
      Respond 200 (Started 7 ''Workflow execution started'' ''running'')]"
    by (simp add: example_env_def example_payload_def)
  from valid h6 have "post_execute_workflow example_store example_env ''3'' =
     [Effect (Stored (Insert_run_bare (JStr ''3'') ''IN_PROGRESS'')),
      Respond 202 (Accepted ''Workflow execution started'' 7)]
     @ map Effect (effects (fst (executeWorkflowAsync example_env (JStr ''3'') 7 (?p # ?ps))))"
    by blast
  then have g: "post_execute_workflow example_store example_env ''3'' =
     [Effect (Stored (Insert_run_bare (JStr ''3'') ''IN_PROGRESS'')),
      Respond 202 (Accepted ''Workflow execution started'' 7)]
     @ map Effect (effects (fst (executeWorkflowAsync example_env (JStr ''3'') 7
                                   example_payloads)))"
    by (simp only: example_payloads_def)
  from a a' b b' c d f g show ?thesis by (intro conjI)
qed

end
